theory Spec2Isabelle
  imports Complex_Main "HOL-Library.AList" "HOL-Library.Sublist" "HOL-Library.Multiset"
begin

section \<open>JavaScript values used by the modelled code\<close>

text \<open>
  A value caught by a \<^verbatim>\<open>catch\<close> clause. An instance of \<^verbatim>\<open>Error\<close> carries the name of
  its class and its message; any other thrown value is kept as its \<^verbatim>\<open>String(...)\<close>
  rendering. \<^verbatim>\<open>new Error(m)\<close> is \<open>new_Error m\<close>.
\<close>

datatype thrown = Thrown_Error (err_class: string) (err_message: string) | Thrown_Value string

definition new_Error :: "string \<Rightarrow> thrown" where
  "new_Error m = Thrown_Error ''Error'' m"

text \<open>\<^verbatim>\<open>error instanceof Error ? error.message : String(error)\<close>\<close>

fun getErrorMessage :: "thrown \<Rightarrow> string" where
  "getErrorMessage (Thrown_Error c m) = m"
| "getErrorMessage (Thrown_Value s) = s"

text \<open>The class a caller can test with \<^verbatim>\<open>instanceof\<close> or \<^verbatim>\<open>error.name\<close>.\<close>

fun error_kind :: "thrown \<Rightarrow> string option" where
  "error_kind (Thrown_Error c m) = Some c"
| "error_kind (Thrown_Value s) = None"

text \<open>\<^verbatim>\<open>s.includes(p)\<close>: \<open>p\<close> occurs in \<open>s\<close> as a contiguous substring.\<close>

fun str_includes :: "string \<Rightarrow> string \<Rightarrow> bool" where
  "str_includes [] p = (p = [])"
| "str_includes (c # s) p = (prefix p (c # s) \<or> str_includes s p)"

text \<open>\<^verbatim>\<open>parts.join(sep)\<close>\<close>

fun join :: "'a list \<Rightarrow> 'a list list \<Rightarrow> 'a list" where
  "join sep [] = []"
| "join sep [x] = x"
| "join sep (x # y # ys) = x @ sep @ join sep (y # ys)"

text \<open>
  \<^verbatim>\<open>xs.slice(start, end)\<close> on integer arguments: a negative index counts from the end
  of the array, both indices are clamped to the array, and an empty range gives the
  empty array.
\<close>

definition js_slice :: "'a list \<Rightarrow> int \<Rightarrow> int \<Rightarrow> 'a list" where
  "js_slice xs start end =
     (let n = int (length xs);
          k = (if start < 0 then max (n + start) 0 else min start n);
          e = (if end < 0 then max (n + end) 0 else min end n)
      in take (nat (e - k)) (drop (nat k) xs))"

text \<open>
  \<^verbatim>\<open>parseInt(s, 10)\<close>: leading white space is skipped, one sign is accepted, then the
  longest run of decimal digits is read; with no digit the result is \<^verbatim>\<open>NaN\<close>, here
  \<open>None\<close>. Numbers are mathematical integers (exact below \<open>2 ^ 53\<close>), and white space
  is the ASCII white space.
\<close>

definition is_space :: "char \<Rightarrow> bool" where
  "is_space c = (c \<in> set [CHR '' '', CHR 0x09, CHR 0x0A, CHR 0x0B, CHR 0x0C, CHR 0x0D])"

definition is_digit :: "char \<Rightarrow> bool" where
  "is_digit c = (48 \<le> (of_char c :: nat) \<and> (of_char c :: nat) \<le> 57)"

definition digit_val :: "char \<Rightarrow> int" where
  "digit_val c = int (of_char c :: nat) - 48"

definition parse_digits :: "string \<Rightarrow> int option" where
  "parse_digits s =
     (let ds = takeWhile is_digit s
      in if ds = [] then None else Some (foldl (\<lambda>a c. 10 * a + digit_val c) 0 ds))"

definition parseInt :: "string \<Rightarrow> int option" where
  "parseInt s =
     (case dropWhile is_space s of
        [] \<Rightarrow> None
      | c # r \<Rightarrow>
          if c = CHR ''-'' then map_option uminus (parse_digits r)
          else if c = CHR ''+'' then parse_digits r
          else parse_digits (c # r))"

text \<open>
  \<^verbatim>\<open>process.env\<close> maps names to strings; a variable is truthy when it is set to a
  non-empty string.
\<close>

type_synonym env = "string \<rightharpoonup> string"

definition env_truthy :: "env \<Rightarrow> string \<Rightarrow> bool" where
  "env_truthy env k = (case env k of None \<Rightarrow> False | Some s \<Rightarrow> s \<noteq> [])"

text \<open>\<^verbatim>\<open>process.env.K || d\<close>\<close>

definition env_or :: "env \<Rightarrow> string \<Rightarrow> string \<Rightarrow> string" where
  "env_or env k d = (case env k of None \<Rightarrow> d | Some s \<Rightarrow> if s = [] then d else s)"

section \<open>embeddings/config: the model tables\<close>

definition OPENAI_MODEL_DIMENSIONS :: "(string \<times> int) list" where
  "OPENAI_MODEL_DIMENSIONS =
     [(''text-embedding-3-small'', 1536),
      (''text-embedding-3-large'', 3072),
      (''text-embedding-ada-002'', 1536)]"

definition VOYAGE_MODEL_DIMENSIONS :: "(string \<times> int) list" where
  "VOYAGE_MODEL_DIMENSIONS =
     [(''voyage-3'', 1024),
      (''voyage-3-large'', 1024),
      (''voyage-3-lite'', 512),
      (''voyage-finance-2'', 1024),
      (''voyage-multilingual-2'', 1024),
      (''voyage-law-2'', 1024),
      (''voyage-code-2'', 1536),
      (''voyage-2'', 1024),
      (''voyage-large-2'', 1536),
      (''voyage-large-2-instruct'', 1024)]"

text \<open>
  Both tables are object literals, so a lookup \<^verbatim>\<open>TABLE[name]\<close> and the test
  \<^verbatim>\<open>name in TABLE\<close> also see the members every object inherits from
  \<^verbatim>\<open>Object.prototype\<close>. A dimension is therefore a number or, for one of those
  names, the inherited member (a function or object, which is truthy).
\<close>

definition object_prototype_keys :: "string list" where
  "object_prototype_keys =
     [''constructor'', ''__defineGetter__'', ''__defineSetter__'', ''hasOwnProperty'',
      ''__lookupGetter__'', ''__lookupSetter__'', ''isPrototypeOf'',
      ''propertyIsEnumerable'', ''toString'', ''valueOf'', ''__proto__'',
      ''toLocaleString'']"

datatype dimval = Dim int | ProtoMember string

text \<open>\<^verbatim>\<open>name in TABLE\<close>\<close>

definition key_in :: "string \<Rightarrow> (string \<times> int) list \<Rightarrow> bool" where
  "key_in name tbl = (map_of tbl name \<noteq> None \<or> name \<in> set object_prototype_keys)"

text \<open>\<^verbatim>\<open>TABLE[name] || d\<close>\<close>

definition lookup_or :: "(string \<times> int) list \<Rightarrow> string \<Rightarrow> int \<Rightarrow> dimval" where
  "lookup_or tbl name d =
     (case map_of tbl name of
        Some n \<Rightarrow> if n = 0 then Dim d else Dim n
      | None \<Rightarrow> if name \<in> set object_prototype_keys then ProtoMember name else Dim d)"

definition getModelDimensions :: "string \<Rightarrow> dimval" where
  "getModelDimensions modelName =
     (if prefix ''voyage-'' modelName
      then lookup_or VOYAGE_MODEL_DIMENSIONS modelName 1024
      else lookup_or OPENAI_MODEL_DIMENSIONS modelName 1536)"

section \<open>config/EmbeddingConfigValidator\<close>

text \<open>
  The messages of the validation report, each with the values the source interpolates
  into its text.
\<close>

datatype warning =
    UnrecognizedModel string "string list"
  | NoApiKey
  | MockEmbeddingsSet
  | ConflictingDimensions "int option" "int option"

datatype config_error =
    InvalidEmbeddingDimensions string
  | InvalidVectorDimensions string
  | DimensionsMismatch dimval dimval

datatype dim_source =
    FromEmbeddingEnvVar
  | FromVectorEnvVar
  | FallbackInferredFromModel string
  | InferredFromModel string
  | FallbackMatchingEmbedding dimval
  | InferredFromEmbeddingConfig dimval

record EmbeddingConfigSummary =
  provider :: string
  model :: string
  dimensions :: dimval
  dimensionsSource :: dim_source
  vectorIndexDimensions :: dimval
  vectorIndexSource :: dim_source
  dimensionsMatch :: bool
  apiKeyConfigured :: bool
  mockEmbeddings :: bool

record ConfigValidationResult =
  isValid :: bool
  warnings :: "warning list"
  errors :: "config_error list"
  config :: EmbeddingConfigSummary

text \<open>\<^verbatim>\<open>a !== b\<close> on the results of \<^verbatim>\<open>parseInt\<close>: \<^verbatim>\<open>NaN\<close> differs from everything.\<close>

definition num_strict_neq :: "int option \<Rightarrow> int option \<Rightarrow> bool" where
  "num_strict_neq a b = (a = None \<or> b = None \<or> a \<noteq> b)"

text \<open>The embedding model and the two resolved dimensions, with their error lists.\<close>

definition embeddingModel_of :: "env \<Rightarrow> string" where
  "embeddingModel_of env = env_or env ''OPENAI_EMBEDDING_MODEL'' ''text-embedding-3-small''"

definition resolveEmbeddingDimensions :: "env \<Rightarrow> dimval \<times> dim_source \<times> config_error list" where
  "resolveEmbeddingDimensions env =
     (let embeddingModel = embeddingModel_of env
      in if env_truthy env ''OPENAI_EMBEDDING_DIMENSIONS''
         then (case parseInt (the (env ''OPENAI_EMBEDDING_DIMENSIONS'')) of
                 Some n \<Rightarrow> (Dim n, FromEmbeddingEnvVar, [])
               | None \<Rightarrow>
                   (getModelDimensions embeddingModel,
                    FallbackInferredFromModel embeddingModel,
                    [InvalidEmbeddingDimensions (the (env ''OPENAI_EMBEDDING_DIMENSIONS''))]))
         else (getModelDimensions embeddingModel, InferredFromModel embeddingModel, []))"

definition resolveVectorIndexDimensions ::
  "env \<Rightarrow> dimval \<Rightarrow> dimval \<times> dim_source \<times> config_error list" where
  "resolveVectorIndexDimensions env embeddingDimensions =
     (if env_truthy env ''NEO4J_VECTOR_DIMENSIONS''
      then (case parseInt (the (env ''NEO4J_VECTOR_DIMENSIONS'')) of
              Some n \<Rightarrow> (Dim n, FromVectorEnvVar, [])
            | None \<Rightarrow>
                (embeddingDimensions,
                 FallbackMatchingEmbedding embeddingDimensions,
                 [InvalidVectorDimensions (the (env ''NEO4J_VECTOR_DIMENSIONS''))]))
      else (embeddingDimensions, InferredFromEmbeddingConfig embeddingDimensions, []))"

definition validate :: "env \<Rightarrow> ConfigValidationResult" where
  "validate env =
     (let mockEmbeddings = (env ''MOCK_EMBEDDINGS'' = Some ''true'');
          apiKeyConfigured = env_truthy env ''OPENAI_API_KEY'';
          embeddingModel = embeddingModel_of env;
          isRecognizedModel = key_in embeddingModel OPENAI_MODEL_DIMENSIONS;
          warnings1 =
            (if \<not> isRecognizedModel \<and> \<not> mockEmbeddings
             then [UnrecognizedModel embeddingModel (map fst OPENAI_MODEL_DIMENSIONS)]
             else []);
          (embeddingDimensions, dimensionsSource, errors1) = resolveEmbeddingDimensions env;
          (vectorIndexDimensions, vectorIndexSource, errors2) =
            resolveVectorIndexDimensions env embeddingDimensions;
          dimensionsMatch = (embeddingDimensions = vectorIndexDimensions);
          errors3 =
            (if \<not> dimensionsMatch
             then [DimensionsMismatch embeddingDimensions vectorIndexDimensions] else []);
          warnings2 = (if \<not> apiKeyConfigured \<and> \<not> mockEmbeddings then [NoApiKey] else []);
          warnings3 = (if mockEmbeddings then [MockEmbeddingsSet] else []);
          warnings4 =
            (if env_truthy env ''OPENAI_EMBEDDING_DIMENSIONS''
                \<and> env_truthy env ''NEO4J_VECTOR_DIMENSIONS''
             then (let embDims = parseInt (the (env ''OPENAI_EMBEDDING_DIMENSIONS''));
                       vectorDims = parseInt (the (env ''NEO4J_VECTOR_DIMENSIONS''))
                   in if num_strict_neq embDims vectorDims
                      then [ConflictingDimensions embDims vectorDims] else [])
             else []);
          errors = errors1 @ errors2 @ errors3
      in \<lparr> isValid = (errors = []),
           warnings = warnings1 @ warnings2 @ warnings3 @ warnings4,
           errors = errors,
           config =
             \<lparr> provider = (if mockEmbeddings then ''mock'' else ''openai''),
               model = embeddingModel,
               dimensions = embeddingDimensions,
               dimensionsSource = dimensionsSource,
               vectorIndexDimensions = vectorIndexDimensions,
               vectorIndexSource = vectorIndexSource,
               dimensionsMatch = dimensionsMatch,
               apiKeyConfigured = apiKeyConfigured,
               mockEmbeddings = mockEmbeddings \<rparr> \<rparr>)"

section \<open>embeddings/VoyageAIEmbeddingService\<close>

text \<open>
  From here on a record's fields carry a short prefix, since several objects of the
  source share field names (\<^verbatim>\<open>model\<close>, \<^verbatim>\<open>dimensions\<close>, \<^verbatim>\<open>errors\<close>, ...).
\<close>

datatype input_type = Query | Document

record VoyageAIEmbeddingConfig =
  cfg_apiKey :: string
  cfg_model :: "string option"
  cfg_dimensions :: "int option"
  cfg_version :: "string option"
  cfg_inputType :: "input_type option"

record VoyageAIEmbeddingService =
  svc_apiKey :: string
  svc_model :: string
  svc_dimensions :: dimval
  svc_version :: string
  svc_inputType :: input_type

record EmbeddingModelInfo =
  info_name :: string
  info_dimensions :: dimval
  info_version :: string

text \<open>\<^verbatim>\<open>s || d\<close> on an optional string and on an optional number.\<close>

definition str_or :: "string option \<Rightarrow> string \<Rightarrow> string" where
  "str_or s d = (case s of None \<Rightarrow> d | Some x \<Rightarrow> if x = [] then d else x)"

definition num_or :: "int option \<Rightarrow> int \<Rightarrow> int" where
  "num_or n d = (case n of None \<Rightarrow> d | Some x \<Rightarrow> if x = 0 then d else x)"

fun dim_truthy :: "dimval \<Rightarrow> bool" where
  "dim_truthy (Dim n) = (n \<noteq> 0)"
| "dim_truthy (ProtoMember k) = True"

text \<open>The constructor; the configuration object itself is always given.\<close>

definition newVoyageAIEmbeddingService ::
  "env \<Rightarrow> VoyageAIEmbeddingConfig \<Rightarrow> thrown + VoyageAIEmbeddingService" where
  "newVoyageAIEmbeddingService env cfg =
     (if cfg_apiKey cfg = [] \<and> \<not> env_truthy env ''VOYAGE_API_KEY''
      then Inl (new_Error ''API key is required for Voyage AI embedding service'')
      else
        (let apiKey = (if cfg_apiKey cfg \<noteq> [] then cfg_apiKey cfg
                       else env_or env ''VOYAGE_API_KEY'' []);
             m = str_or (cfg_model cfg) (env_or env ''VOYAGE_EMBEDDING_MODEL'' ''voyage-3-large'');
             d = (case cfg_dimensions cfg of
                    None \<Rightarrow> getModelDimensions m
                  | Some n \<Rightarrow> if n = 0 then getModelDimensions m else Dim n)
         in Inr \<lparr> svc_apiKey = apiKey,
                  svc_model = m,
                  svc_dimensions = d,
                  svc_version = str_or (cfg_version cfg) ''3.0.0'',
                  svc_inputType = (case cfg_inputType cfg of None \<Rightarrow> Document | Some t \<Rightarrow> t) \<rparr>))"

record EmbedParams =
  ep_input :: "string list"
  ep_model :: string
  ep_inputType :: "input_type option"
  ep_outputDimension :: "dimval option"

text \<open>The request both \<^verbatim>\<open>generateEmbedding\<close> and \<^verbatim>\<open>generateEmbeddings\<close> build.\<close>

definition embedParams :: "VoyageAIEmbeddingService \<Rightarrow> string list \<Rightarrow> EmbedParams" where
  "embedParams svc texts =
     \<lparr> ep_input = texts,
       ep_model = svc_model svc,
       ep_inputType = Some (svc_inputType svc),
       ep_outputDimension =
         (if prefix ''voyage-3'' (svc_model svc) \<and> dim_truthy (svc_dimensions svc)
          then Some (svc_dimensions svc) else None) \<rparr>"

text \<open>
  What \<^verbatim>\<open>client.embed\<close> answers: nothing, an object without \<^verbatim>\<open>data\<close>, or a list of
  items whose \<^verbatim>\<open>embedding\<close> is missing (or falsy), truthy but not an array, or an
  array of numbers.
\<close>

datatype embedding_field = NoEmbedding | NotAnArray | EmbeddingArray "rat list"

datatype embed_response = NoEmbedResponse | NoEmbedData | EmbedData "embedding_field list"

type_synonym embed_client = "EmbedParams \<Rightarrow> thrown + embed_response"

definition voyage_rethrow :: "string \<Rightarrow> thrown" where
  "voyage_rethrow errorMessage =
     (if str_includes errorMessage ''401'' \<or> str_includes errorMessage ''authentication''
      then new_Error ''Voyage AI API authentication failed - invalid API key''
      else if str_includes errorMessage ''429'' \<or> str_includes errorMessage ''rate limit''
      then new_Error ''Voyage AI API rate limit exceeded - try again later''
      else if str_includes errorMessage ''500'' \<or> str_includes errorMessage ''503''
      then new_Error ''Voyage AI API server error - try again later''
      else new_Error (''Error generating embedding: '' @ errorMessage))"

text \<open>The body of the \<^verbatim>\<open>try\<close> block after the call: the embedding, or the error thrown.\<close>

definition single_embedding :: "embed_response \<Rightarrow> thrown + rat list" where
  "single_embedding response =
     (case response of
        EmbedData (EmbeddingArray e # items) \<Rightarrow>
          if e = [] then Inl (new_Error ''Invalid embedding returned from Voyage AI API'')
          else Inr e
      | EmbedData (NotAnArray # items) \<Rightarrow>
          Inl (new_Error ''Invalid embedding returned from Voyage AI API'')
      | _ \<Rightarrow> Inl (new_Error ''Invalid response from Voyage AI API - missing embedding data''))"

definition voyage_generateEmbedding ::
  "VoyageAIEmbeddingService \<Rightarrow> embed_client \<Rightarrow> string \<Rightarrow> thrown + rat list" where
  "voyage_generateEmbedding svc client text =
     (case client (embedParams svc [text]) of
        Inl error \<Rightarrow> Inl (voyage_rethrow (getErrorMessage error))
      | Inr response \<Rightarrow>
          (case single_embedding response of
             Inl error \<Rightarrow> Inl (voyage_rethrow (getErrorMessage error))
           | Inr embedding \<Rightarrow> Inr embedding))"

fun batch_item :: "embedding_field \<Rightarrow> thrown + rat list" where
  "batch_item (EmbeddingArray e) = Inr e"
| "batch_item _ = Inl (new_Error ''Invalid embedding in batch response'')"

fun batch_items :: "embedding_field list \<Rightarrow> thrown + rat list list" where
  "batch_items [] = Inr []"
| "batch_items (item # items) =
     (case batch_item item of
        Inl error \<Rightarrow> Inl error
      | Inr e \<Rightarrow> (case batch_items items of Inl error \<Rightarrow> Inl error | Inr es \<Rightarrow> Inr (e # es)))"

definition batch_embeddings :: "embed_response \<Rightarrow> thrown + rat list list" where
  "batch_embeddings response =
     (case response of
        EmbedData (item # items) \<Rightarrow> batch_items (item # items)
      | _ \<Rightarrow> Inl (new_Error ''Invalid response from Voyage AI API - no embeddings returned''))"

definition voyage_generateEmbeddings ::
  "VoyageAIEmbeddingService \<Rightarrow> embed_client \<Rightarrow> string list \<Rightarrow> thrown + rat list list" where
  "voyage_generateEmbeddings svc client texts =
     (case client (embedParams svc texts) of
        Inl error \<Rightarrow>
          Inl (new_Error (''Failed to generate embeddings: '' @ getErrorMessage error))
      | Inr response \<Rightarrow>
          (case batch_embeddings response of
             Inl error \<Rightarrow>
               Inl (new_Error (''Failed to generate embeddings: '' @ getErrorMessage error))
           | Inr embeddings \<Rightarrow> Inr embeddings))"

definition getModelInfo :: "VoyageAIEmbeddingService \<Rightarrow> EmbeddingModelInfo" where
  "getModelInfo svc =
     \<lparr> info_name = svc_model svc,
       info_dimensions = svc_dimensions svc,
       info_version = svc_version svc \<rparr>"

section \<open>The search result type and the reranking service\<close>

text \<open>
  The values a metadata object holds, and metadata as a map from property names. The
  type parameter is the type of numbers: the reranking service only copies the numbers
  it is given, and they are rationals there; the fusion of the hybrid search computes
  with them, and its arithmetic is left open below.
\<close>

datatype 'n jsval = JNum 'n | JStr string | JUndefined

type_synonym 'n metadata = "string \<rightharpoonup> 'n jsval"

record 'n VectorSearchResult =
  vsr_id :: string
  vsr_similarity :: 'n
  vsr_metadata :: "'n metadata"

record RerankDocument =
  doc_id :: string
  doc_text :: string
  doc_metadata :: "rat metadata option"

record RerankResult =
  rr_id :: string
  rr_score :: "rat jsval"
  rr_relevanceScore :: rat
  rr_metadata :: "rat metadata"

record CohereRerankingService =
  co_model :: string
  co_topN :: "int option"

record RerankRequest =
  rq_query :: string
  rq_documents :: "string list"
  rq_model :: string
  rq_topN :: int

text \<open>
  What \<^verbatim>\<open>client.rerank\<close> answers: nothing, an object without \<^verbatim>\<open>results\<close>, or a list of
  \<^verbatim>\<open>{index, relevanceScore}\<close>.
\<close>

datatype rerank_response = NoRerankResponse | NoRerankResults | RerankResults "(nat \<times> rat) list"

type_synonym rerank_client = "RerankRequest \<Rightarrow> thrown + rerank_response"

definition cohere_rethrow :: "string \<Rightarrow> thrown" where
  "cohere_rethrow errorMessage =
     (if str_includes errorMessage ''401'' \<or> str_includes errorMessage ''authentication''
      then new_Error ''Cohere API authentication failed - invalid API key''
      else if str_includes errorMessage ''429'' \<or> str_includes errorMessage ''rate limit''
      then new_Error ''Cohere API rate limit exceeded - try again later''
      else if str_includes errorMessage ''500'' \<or> str_includes errorMessage ''503''
      then new_Error ''Cohere API server error - try again later''
      else new_Error (''Error reranking documents: '' @ errorMessage))"

text \<open>\<^verbatim>\<open>originalDoc.metadata?.originalScore\<close>\<close>

definition originalScore_of :: "RerankDocument \<Rightarrow> rat jsval" where
  "originalScore_of d =
     (case doc_metadata d of
        None \<Rightarrow> JUndefined
      | Some m \<Rightarrow> (case m ''originalScore'' of None \<Rightarrow> JUndefined | Some v \<Rightarrow> v))"

text \<open>
  One step of \<^verbatim>\<open>response.results.map\<close>: an index outside \<^verbatim>\<open>documents\<close> reads
  \<^verbatim>\<open>undefined\<close>, and the access to its \<^verbatim>\<open>id\<close> throws a \<^verbatim>\<open>TypeError\<close>.
\<close>

definition rerank_item :: "RerankDocument list \<Rightarrow> nat \<times> rat \<Rightarrow> thrown + RerankResult" where
  "rerank_item documents r =
     (if fst r < length documents
      then (let originalDoc = documents ! fst r
            in Inr \<lparr> rr_id = doc_id originalDoc,
                     rr_score = originalScore_of originalDoc,
                     rr_relevanceScore = snd r,
                     rr_metadata =
                       (case doc_metadata originalDoc of None \<Rightarrow> Map.empty | Some m \<Rightarrow> m)
                         (''rerankScore'' \<mapsto> JNum (snd r),
                          ''rerankIndex'' \<mapsto> JNum (of_nat (fst r))) \<rparr>)
      else Inl (Thrown_Error ''TypeError''
                  ''Cannot read properties of undefined (reading 'id')''))"

fun rerank_items :: "RerankDocument list \<Rightarrow> (nat \<times> rat) list \<Rightarrow> thrown + RerankResult list" where
  "rerank_items documents [] = Inr []"
| "rerank_items documents (r # rs) =
     (case rerank_item documents r of
        Inl error \<Rightarrow> Inl error
      | Inr x \<Rightarrow>
          (case rerank_items documents rs of Inl error \<Rightarrow> Inl error | Inr xs \<Rightarrow> Inr (x # xs)))"

definition rerank ::
  "CohereRerankingService \<Rightarrow> rerank_client \<Rightarrow> string \<Rightarrow> RerankDocument list \<Rightarrow> int option
     \<Rightarrow> thrown + RerankResult list" where
  "rerank svc client query documents topN =
     (if documents = [] then Inr []
      else
        (let resultCount = num_or topN (num_or (co_topN svc) (int (length documents)))
         in case client \<lparr> rq_query = query, rq_documents = map doc_text documents,
                           rq_model = co_model svc, rq_topN = resultCount \<rparr> of
              Inl error \<Rightarrow> Inl (cohere_rethrow (getErrorMessage error))
            | Inr NoRerankResponse \<Rightarrow>
                Inl (cohere_rethrow ''Invalid response from Cohere rerank API'')
            | Inr NoRerankResults \<Rightarrow>
                Inl (cohere_rethrow ''Invalid response from Cohere rerank API'')
            | Inr (RerankResults results) \<Rightarrow>
                (case rerank_items documents results of
                   Inl error \<Rightarrow> Inl (cohere_rethrow (getErrorMessage error))
                 | Inr rerankedResults \<Rightarrow> Inr rerankedResults)))"

definition toRerankDocument :: "(string \<rightharpoonup> string) \<Rightarrow> rat VectorSearchResult \<Rightarrow> RerankDocument" where
  "toRerankDocument entityTexts result =
     \<lparr> doc_id = vsr_id result,
       doc_text = str_or (entityTexts (vsr_id result)) (vsr_id result),
       doc_metadata = Some ((vsr_metadata result)(''originalScore'' \<mapsto> JNum (vsr_similarity result))) \<rparr>"

text \<open>
  \<^verbatim>\<open>originalSimilarity: result.score\<close> stores whatever \<^verbatim>\<open>score\<close> holds; the result's
  \<^verbatim>\<open>similarity\<close> is the relevance score.
\<close>

definition fromRerankResult :: "RerankResult \<Rightarrow> rat VectorSearchResult" where
  "fromRerankResult result =
     \<lparr> vsr_id = rr_id result,
       vsr_similarity = rr_relevanceScore result,
       vsr_metadata =
         (rr_metadata result)
           (''originalSimilarity'' \<mapsto> rr_score result,
            ''searchMethod'' \<mapsto> JStr ''vector+rerank'') \<rparr>"

definition rerankVectorSearchResults ::
  "CohereRerankingService \<Rightarrow> rerank_client \<Rightarrow> string \<Rightarrow> rat VectorSearchResult list
     \<Rightarrow> (string \<rightharpoonup> string) \<Rightarrow> int option \<Rightarrow> thrown + rat VectorSearchResult list" where
  "rerankVectorSearchResults svc client query results entityTexts topN =
     (if results = [] then Inr []
      else
        (case rerank svc client query (map (toRerankDocument entityTexts) results) topN of
           Inl error \<Rightarrow> Inl error
         | Inr rerankedResults \<Rightarrow> Inr (map fromRerankResult rerankedResults)))"

section \<open>storage/neo4j/Neo4jVectorStore: hybrid search\<close>

text \<open>
  The fusion computes with JavaScript numbers, which are IEEE doubles: sums round, and a
  division by zero is \<^verbatim>\<open>Infinity\<close>. So the arithmetic is a parameter: \<open>'n\<close> is the type
  of the numbers, \<open>num_of_nat\<close> gives the number of an index or of an integer literal,
  \<open>num_add\<close>, \<open>num_sub\<close> and \<open>num_div\<close> are \<^verbatim>\<open>+\<close>, \<^verbatim>\<open>-\<close> and \<^verbatim>\<open>/\<close> as the program
  evaluates them, and \<open>num_negative x\<close> is \<^verbatim>\<open>x < 0\<close>. Nothing is assumed of the
  operations in the definitions.
\<close>

record 'n arithmetic =
  num_one :: 'n
  num_of_nat :: "nat \<Rightarrow> 'n"
  num_add :: "'n \<Rightarrow> 'n \<Rightarrow> 'n"
  num_sub :: "'n \<Rightarrow> 'n \<Rightarrow> 'n"
  num_div :: "'n \<Rightarrow> 'n \<Rightarrow> 'n"
  num_negative :: "'n \<Rightarrow> bool"

text \<open>
  The records the two queries of \<^verbatim>\<open>hybridSearchWithRRF\<close> return, in the order the
  database returns them.
\<close>

record 'n VectorRecord =
  vr_id :: string
  vr_entityType :: string
  vr_vectorScore :: 'n

record 'n KeywordRecord =
  kr_id :: string
  kr_entityType :: string
  kr_bm25Score :: 'n

record 'n RrfEntry =
  rrf_score :: 'n
  rrf_entityType :: string
  rrf_vectorScore :: "'n option"
  rrf_bm25Score :: "'n option"

text \<open>
  \<^verbatim>\<open>rrfScores\<close> is a \<^verbatim>\<open>Map\<close>: it keeps its keys in insertion order, and \<^verbatim>\<open>set\<close> on a
  key it holds replaces the value in place. That is \<open>AList.update\<close> on an association
  list, with \<open>map_of\<close> for \<^verbatim>\<open>get\<close>.
\<close>

text \<open>\<^verbatim>\<open>1 / (rrfK + index + 1)\<close>, evaluated from the left.\<close>

definition rrfTerm :: "'n arithmetic \<Rightarrow> 'n \<Rightarrow> nat \<Rightarrow> 'n" where
  "rrfTerm ar rrfK index =
     num_div ar (num_one ar)
       (num_add ar (num_add ar rrfK (num_of_nat ar index)) (num_one ar))"

definition addVectorResult ::
  "'n arithmetic \<Rightarrow> 'n \<Rightarrow> (string \<times> 'n RrfEntry) list \<Rightarrow> nat \<times> 'n VectorRecord
     \<Rightarrow> (string \<times> 'n RrfEntry) list" where
  "addVectorResult ar rrfK rrfScores ir =
     AList.update (vr_id (snd ir))
       \<lparr> rrf_score = rrfTerm ar rrfK (fst ir),
         rrf_entityType = vr_entityType (snd ir),
         rrf_vectorScore = Some (vr_vectorScore (snd ir)),
         rrf_bm25Score = None \<rparr> rrfScores"

definition addKeywordResult ::
  "'n arithmetic \<Rightarrow> 'n \<Rightarrow> (string \<times> 'n RrfEntry) list \<Rightarrow> nat \<times> 'n KeywordRecord
     \<Rightarrow> (string \<times> 'n RrfEntry) list" where
  "addKeywordResult ar rrfK rrfScores ir =
     (case map_of rrfScores (kr_id (snd ir)) of
        Some existing \<Rightarrow>
          AList.update (kr_id (snd ir))
            \<lparr> rrf_score = num_add ar (rrf_score existing) (rrfTerm ar rrfK (fst ir)),
              rrf_entityType = kr_entityType (snd ir),
              rrf_vectorScore = rrf_vectorScore existing,
              rrf_bm25Score = Some (kr_bm25Score (snd ir)) \<rparr> rrfScores
      | None \<Rightarrow>
          AList.update (kr_id (snd ir))
            \<lparr> rrf_score = rrfTerm ar rrfK (fst ir),
              rrf_entityType = kr_entityType (snd ir),
              rrf_vectorScore = None,
              rrf_bm25Score = Some (kr_bm25Score (snd ir)) \<rparr> rrfScores)"

definition rrfScores ::
  "'n arithmetic \<Rightarrow> 'n \<Rightarrow> 'n VectorRecord list \<Rightarrow> 'n KeywordRecord list
     \<Rightarrow> (string \<times> 'n RrfEntry) list" where
  "rrfScores ar rrfK vectorResults keywordResults =
     foldl (addKeywordResult ar rrfK)
       (foldl (addVectorResult ar rrfK) [] (enumerate 0 vectorResults))
       (enumerate 0 keywordResults)"



















section \<open>storage/neo4j/Neo4jReindexManager\<close>

text \<open>
  Numeric options are integers; \<open>None\<close> is an option left out (or \<^verbatim>\<open>NaN\<close>, which is
  falsy as well). \<open>onProgress\<close> says whether a callback is given.
\<close>

record ReindexOptions =
  batchSize :: "int option"
  entityTypes :: "string list option"
  namePattern :: "string option"
  onlyMissing :: bool
  force :: bool
  dryRun :: bool
  limit :: "int option"
  onProgress :: bool
  batchDelay :: "int option"
  customQuery :: "string option"
  customQueryParams :: "(string \<times> string) list option"

text \<open>
  A progress event; \<^verbatim>\<open>estimatedTimeRemaining\<close> is computed from the wall clock and is
  left out.
\<close>

record ReindexProgress =
  pr_total :: nat
  pr_processed :: nat
  pr_succeeded :: nat
  pr_failed :: nat
  pr_skipped :: nat
  pr_percentage :: rat
  pr_currentBatch :: int
  pr_totalBatches :: int

text \<open>The result; \<^verbatim>\<open>duration\<close> is wall-clock time and is left out.\<close>

record ReindexResult =
  res_total :: nat
  res_processed :: nat
  res_succeeded :: nat
  res_failed :: nat
  res_skipped :: nat
  res_errors :: "(string \<times> string) list"

record EntityBatch =
  ent_name :: string
  ent_type :: string
  ent_observations :: "string list"

text \<open>\<^verbatim>\<open>String(n)\<close> for an integer.\<close>

fun show_nat :: "nat \<Rightarrow> string" where
  "show_nat n =
     (if n < 10 then [char_of (48 + n)] else show_nat (n div 10) @ [char_of (48 + n mod 10)])"

definition show_int :: "int \<Rightarrow> string" where
  "show_int i = (if i < 0 then CHR ''-'' # show_nat (nat (- i)) else show_nat (nat i))"

text \<open>\<^verbatim>\<open>s\<close> is truthy: given and not empty.\<close>

definition str_truthy :: "string option \<Rightarrow> bool" where
  "str_truthy s = (case s of None \<Rightarrow> False | Some x \<Rightarrow> x \<noteq> [])"

text \<open>The \<^verbatim>\<open>conditions\<close> array both query builders fill in the same way.\<close>

definition conditions :: "ReindexOptions \<Rightarrow> string list" where
  "conditions options =
     [''e.validTo = 9223372036854775807'']
     @ (case entityTypes options of
          Some (t # ts) \<Rightarrow> [''e.entityType IN $entityTypes'']
        | _ \<Rightarrow> [])
     @ (if str_truthy (namePattern options) then [''e.name =~ $namePattern''] else [])
     @ (if onlyMissing options then [''e.embedding IS NULL'']
        else if \<not> force options then [''e.embedding IS NULL'']
        else [])"

definition whereClause :: "ReindexOptions \<Rightarrow> string" where
  "whereClause options =
     (if length (conditions options) > 0
      then ''WHERE '' @ join '' AND '' (conditions options) else [])"

definition limitClause :: "ReindexOptions \<Rightarrow> string" where
  "limitClause options =
     (case limit options of
        None \<Rightarrow> []
      | Some n \<Rightarrow> if n = 0 then [] else ''LIMIT '' @ show_int n)"

text \<open>A line break of the query template with the indentation that follows it.\<close>

definition br :: "nat \<Rightarrow> string" where
  "br n = CHR 0x0A # replicate n (CHR '' '')"

datatype query_params =
    FilterParams "string list" string
  | CustomParams "(string \<times> string) list"

definition filterParams :: "ReindexOptions \<Rightarrow> query_params" where
  "filterParams options =
     FilterParams (case entityTypes options of None \<Rightarrow> [] | Some ts \<Rightarrow> ts)
                  (str_or (namePattern options) ''.*'')"

definition customParams :: "ReindexOptions \<Rightarrow> query_params" where
  "customParams options =
     CustomParams (case customQueryParams options of None \<Rightarrow> [] | Some ps \<Rightarrow> ps)"

text \<open>The query and parameters \<^verbatim>\<open>getEntitiesToReindex\<close> runs.\<close>

definition selectionQuery :: "ReindexOptions \<Rightarrow> string \<times> query_params" where
  "selectionQuery options =
     (if str_truthy (customQuery options)
      then (the (customQuery options), customParams options)
      else (br 10 @ ''MATCH (e:Entity)''
            @ br 10 @ whereClause options
            @ br 10 @ ''RETURN e.name as name, e.entityType as type, e.observations as observations''
            @ br 10 @ ''ORDER BY e.createdAt DESC''
            @ br 10 @ limitClause options
            @ br 8,
            filterParams options))"

text \<open>The query and parameters \<^verbatim>\<open>countEntitiesForReindex\<close> runs.\<close>

definition countQuery :: "ReindexOptions \<Rightarrow> string \<times> query_params" where
  "countQuery options =
     (if str_truthy (customQuery options)
      then (br 10 @ ''WITH ('' @ the (customQuery options) @ '') as subquery''
            @ br 10 @ ''RETURN count(*) as count''
            @ br 8,
            customParams options)
      else (br 10 @ ''MATCH (e:Entity)''
            @ br 10 @ whereClause options
            @ br 10 @ ''RETURN count(e) as count''
            @ br 8,
            filterParams options))"

text \<open>
  The database is what \<^verbatim>\<open>session.run\<close> answers to a query: an error, or the records.
  A record's \<^verbatim>\<open>observations\<close> may be null.
\<close>

record RawRecord =
  raw_name :: string
  raw_type :: string
  raw_observations :: "string list option"

type_synonym database = "string \<times> query_params \<Rightarrow> thrown + RawRecord list"

definition toEntityBatch :: "RawRecord \<Rightarrow> EntityBatch" where
  "toEntityBatch r =
     \<lparr> ent_name = raw_name r,
       ent_type = raw_type r,
       ent_observations = (case raw_observations r of None \<Rightarrow> [] | Some obs \<Rightarrow> obs) \<rparr>"

definition getEntitiesToReindex :: "database \<Rightarrow> ReindexOptions \<Rightarrow> thrown + EntityBatch list" where
  "getEntitiesToReindex db options =
     (case db (selectionQuery options) of
        Inl error \<Rightarrow> Inl error
      | Inr records \<Rightarrow> Inr (map toEntityBatch records))"

definition generateEmbeddingText :: "EntityBatch \<Rightarrow> string" where
  "generateEmbeddingText entity =
     join [CHR 0x0A]
       ([''Entity: '' @ ent_name entity, ''Type: '' @ ent_type entity]
        @ (if length (ent_observations entity) > 0
           then [''Observations: '' @ join ''; '' (ent_observations entity)] else []))"

text \<open>
  The embedding service the manager is given, and the outcome of the write query of
  \<^verbatim>\<open>storeEmbedding\<close> (\<open>None\<close>: it succeeded).
\<close>

record IEmbeddingService =
  generateEmbedding :: "string \<Rightarrow> thrown + rat list"
  modelInfo :: EmbeddingModelInfo

type_synonym store = "string \<Rightarrow> rat list \<Rightarrow> thrown option"

text \<open>What a run does to the outside, in order.\<close>

datatype event =
    EvGenerate string
  | EvStore string "rat list" string dimval
  | EvSleep int
  | EvProgress ReindexProgress

record LoopState =
  st_processed :: nat
  st_succeeded :: nat
  st_failed :: nat
  st_skipped :: nat
  st_errors :: "(string \<times> string) list"
  st_events :: "event list"

definition emit :: "event \<Rightarrow> LoopState \<Rightarrow> LoopState" where
  "emit ev st = st\<lparr> st_events := st_events st @ [ev] \<rparr>"

text \<open>The \<^verbatim>\<open>catch\<close> clause of the per-entity \<^verbatim>\<open>try\<close>.\<close>

definition recordFailure :: "EntityBatch \<Rightarrow> thrown \<Rightarrow> LoopState \<Rightarrow> LoopState" where
  "recordFailure entity error st =
     st\<lparr> st_failed := st_failed st + 1,
         st_errors := st_errors st @ [(ent_name entity, getErrorMessage error)] \<rparr>"

text \<open>The \<^verbatim>\<open>try\<close> block: generate, store, count the success.\<close>

definition tryReindex ::
  "IEmbeddingService \<Rightarrow> store \<Rightarrow> EntityBatch \<Rightarrow> LoopState \<Rightarrow> LoopState" where
  "tryReindex svc store entity st =
     (let text = generateEmbeddingText entity;
          st1 = emit (EvGenerate text) st
      in case generateEmbedding svc text of
           Inl error \<Rightarrow> recordFailure entity error st1
         | Inr embedding \<Rightarrow>
             (let st2 = emit (EvStore (ent_name entity) embedding
                                (info_name (modelInfo svc)) (info_dimensions (modelInfo svc))) st1
              in case store (ent_name entity) embedding of
                   Some error \<Rightarrow> recordFailure entity error st2
                 | None \<Rightarrow> st2\<lparr> st_succeeded := st_succeeded st2 + 1 \<rparr>))"

definition progressOf :: "nat \<Rightarrow> int \<Rightarrow> int \<Rightarrow> LoopState \<Rightarrow> ReindexProgress" where
  "progressOf totalCount currentBatch totalBatches st =
     \<lparr> pr_total = totalCount,
       pr_processed = st_processed st,
       pr_succeeded = st_succeeded st,
       pr_failed = st_failed st,
       pr_skipped = st_skipped st,
       pr_percentage = of_nat (st_processed st) / of_nat totalCount * 100,
       pr_currentBatch = currentBatch,
       pr_totalBatches = totalBatches \<rparr>"

text \<open>The body of the inner loop, for one entity of the batch.\<close>

definition processEntity ::
  "IEmbeddingService \<Rightarrow> store \<Rightarrow> ReindexOptions \<Rightarrow> nat \<Rightarrow> int \<Rightarrow> int
     \<Rightarrow> LoopState \<Rightarrow> EntityBatch \<Rightarrow> LoopState" where
  "processEntity svc store options totalCount currentBatch totalBatches st entity =
     (let st1 = tryReindex svc store entity st;
          st2 = st1\<lparr> st_processed := st_processed st1 + 1 \<rparr>
      in if onProgress options
         then emit (EvProgress (progressOf totalCount currentBatch totalBatches st2)) st2
         else st2)"

text \<open>\<^verbatim>\<open>Math.ceil(total / batchSize)\<close> and \<^verbatim>\<open>Math.floor(i / batchSize) + 1\<close>\<close>

definition totalBatchesOf :: "nat \<Rightarrow> int \<Rightarrow> int" where
  "totalBatchesOf totalCount bs = - ((- int totalCount) div bs)"

definition currentBatchOf :: "int \<Rightarrow> int \<Rightarrow> int" where
  "currentBatchOf i bs = i div bs + 1"

text \<open>One turn of the outer loop: the batch, then the delay when another batch follows.\<close>

definition processBatch ::
  "IEmbeddingService \<Rightarrow> store \<Rightarrow> ReindexOptions \<Rightarrow> EntityBatch list \<Rightarrow> int \<Rightarrow> int
     \<Rightarrow> int \<Rightarrow> LoopState \<Rightarrow> LoopState" where
  "processBatch svc store options entities bs delay i st =
     (let batch = js_slice entities i (i + bs);
          st1 = foldl (processEntity svc store options (length entities)
                         (currentBatchOf i bs) (totalBatchesOf (length entities) bs)) st batch
      in if i + bs < int (length entities) \<and> delay > 0 then emit (EvSleep delay) st1 else st1)"

text \<open>
  The outer loop \<^verbatim>\<open>for (let i = 0; i < entities.length; i += batchSize)\<close>. With a
  negative batch size it never ends; \<open>None\<close> is that run.
\<close>

partial_function (option) batchLoop ::
  "IEmbeddingService \<Rightarrow> store \<Rightarrow> ReindexOptions \<Rightarrow> EntityBatch list \<Rightarrow> int \<Rightarrow> int
     \<Rightarrow> int \<Rightarrow> LoopState \<Rightarrow> LoopState option" where
  "batchLoop svc store options entities bs delay i st =
     (if i < int (length entities)
      then batchLoop svc store options entities bs delay (i + bs)
             (processBatch svc store options entities bs delay i st)
      else Some st)"

definition initialState :: LoopState where
  "initialState =
     \<lparr> st_processed = 0, st_succeeded = 0, st_failed = 0, st_skipped = 0,
       st_errors = [], st_events = [] \<rparr>"

definition resultOf :: "nat \<Rightarrow> LoopState \<Rightarrow> ReindexResult" where
  "resultOf totalCount st =
     \<lparr> res_total = totalCount,
       res_processed = st_processed st,
       res_succeeded = st_succeeded st,
       res_failed = st_failed st,
       res_skipped = st_skipped st,
       res_errors = st_errors st \<rparr>"

text \<open>
  \<^verbatim>\<open>reindexEmbeddings\<close>: \<open>None\<close> when the run never ends; otherwise the rejection of
  the selection query, or the result together with everything the run did.
\<close>

definition reindexEmbeddings ::
  "database \<Rightarrow> IEmbeddingService \<Rightarrow> store \<Rightarrow> ReindexOptions
     \<Rightarrow> (thrown + ReindexResult \<times> event list) option" where
  "reindexEmbeddings db svc store options =
     (let bs = num_or (batchSize options) 10;
          delay = num_or (batchDelay options) 1000
      in case getEntitiesToReindex db options of
           Inl error \<Rightarrow> Some (Inl error)
         | Inr entities \<Rightarrow>
             (let totalCount = length entities
              in if totalCount = 0 then Some (Inr (resultOf 0 initialState, []))
                 else if dryRun options then Some (Inr (resultOf totalCount initialState, []))
                 else map_option (\<lambda>st. Inr (resultOf totalCount st, st_events st))
                        (batchLoop svc store options entities bs delay 0 initialState)))"

definition countEntitiesForReindex :: "(string \<times> query_params \<Rightarrow> thrown + nat) \<Rightarrow> ReindexOptions
     \<Rightarrow> thrown + nat" where
  "countEntitiesForReindex db options = db (countQuery options)"

definition validateOptions :: "ReindexOptions \<Rightarrow> bool \<times> string list" where
  "validateOptions options =
     (let errors =
        (case batchSize options of
           Some n \<Rightarrow> if n \<noteq> 0 \<and> (n < 1 \<or> n > 1000)
                     then [''Batch size must be between 1 and 1000''] else []
         | None \<Rightarrow> [])
        @ (case limit options of
             Some n \<Rightarrow> if n \<noteq> 0 \<and> n < 0 then [''Limit must be non-negative''] else []
           | None \<Rightarrow> [])
        @ (case batchDelay options of
             Some n \<Rightarrow> if n \<noteq> 0 \<and> n < 0 then [''Batch delay must be non-negative''] else []
           | None \<Rightarrow> [])
        @ (if str_truthy (customQuery options)
              \<and> \<not> str_includes (the (customQuery options)) ''RETURN''
           then [''Custom query must include RETURN clause''] else [])
        @ (case entityTypes options of
             Some [] \<Rightarrow> [''Entity types array cannot be empty (omit the option instead)'']
           | _ \<Rightarrow> [])
      in (errors = [], errors))"

text \<open>
  For stating what a run does: the error the \<^verbatim>\<open>try\<close> block throws for an entity, if
  any; the entry the \<^verbatim>\<open>catch\<close> clause then appends to \<^verbatim>\<open>errors\<close>; and the texts for
  which a log shows a request for an embedding, in order.
\<close>

definition reindexFailure :: "IEmbeddingService \<Rightarrow> store \<Rightarrow> EntityBatch \<Rightarrow> thrown option" where
  "reindexFailure svc store entity =
     (case generateEmbedding svc (generateEmbeddingText entity) of
        Inl error \<Rightarrow> Some error
      | Inr embedding \<Rightarrow> store (ent_name entity) embedding)"

definition failureEntry ::
  "IEmbeddingService \<Rightarrow> store \<Rightarrow> EntityBatch \<Rightarrow> (string \<times> string) list" where
  "failureEntry svc store entity =
     (case reindexFailure svc store entity of
        None \<Rightarrow> []
      | Some error \<Rightarrow> [(ent_name entity, getErrorMessage error)])"

fun generated :: "event list \<Rightarrow> string list" where
  "generated [] = []"
| "generated (EvGenerate t # evs) = t # generated evs"
| "generated (ev # evs) = generated evs"

fun is_sleep :: "event \<Rightarrow> bool" where
  "is_sleep (EvSleep ms) = True"
| "is_sleep ev = False"

text \<open>The batches of size \<open>b\<close> of a list, in order; the last one may be shorter.\<close>

function chunks :: "nat \<Rightarrow> 'a list \<Rightarrow> 'a list list" where
  "chunks b xs = (if b = 0 \<or> xs = [] then [] else take b xs # chunks b (drop b xs))"
  by pat_completeness auto
termination
  by (relation "measure (\<lambda>(b, xs). length xs)") auto

declare chunks.simps [simp del]

section \<open>The dimension registry\<close>

lemma resolveVectorIndexDimensions_absent:
  "\<not> env_truthy env ''NEO4J_VECTOR_DIMENSIONS'' \<Longrightarrow>
     fst (resolveVectorIndexDimensions env d) = d"
  by (simp add: resolveVectorIndexDimensions_def)

lemma resolveVectorIndexDimensions_override:
  "env ''NEO4J_VECTOR_DIMENSIONS'' = Some s \<Longrightarrow> s \<noteq> [] \<Longrightarrow> parseInt s = Some n \<Longrightarrow>
     fst (resolveVectorIndexDimensions env d) = Dim n"
  by (simp add: resolveVectorIndexDimensions_def env_truthy_def)

lemma validate_dimensions:
  "dimensions (config (validate env)) = fst (resolveEmbeddingDimensions env)"
  by (simp add: validate_def Let_def split: prod.splits)

lemma validate_vectorIndexDimensions:
  "vectorIndexDimensions (config (validate env)) =
     fst (resolveVectorIndexDimensions env (fst (resolveEmbeddingDimensions env)))"
  by (simp add: validate_def Let_def split: prod.splits)

lemma parseInt_2048: "parseInt ''2048'' = Some 2048"
  by (simp add: parseInt_def parse_digits_def is_space_def is_digit_def digit_val_def)

text \<open>
  C1. For every environment: when \<^verbatim>\<open>NEO4J_VECTOR_DIMENSIONS\<close> is not set (or set to the
  empty string), the vector index dimension of the validated configuration is the
  resolved embedding dimension; when it is set and \<^verbatim>\<open>parseInt\<close> reads a number from
  it, the vector index dimension is that number.
\<close>

theorem index_dimension_inherits_or_overrides:
  "(\<not> env_truthy env ''NEO4J_VECTOR_DIMENSIONS'' \<longrightarrow>
      vectorIndexDimensions (config (validate env)) = dimensions (config (validate env)))
   \<and> (\<forall>s n. env ''NEO4J_VECTOR_DIMENSIONS'' = Some s \<and> s \<noteq> [] \<and> parseInt s = Some n \<longrightarrow>
        vectorIndexDimensions (config (validate env)) = Dim n)"
  by (simp add: validate_dimensions validate_vectorIndexDimensions
        resolveVectorIndexDimensions_absent resolveVectorIndexDimensions_override)

text \<open>
  The large OpenAI model with no override gives a 3072-dimensional index; the same
  model with \<^verbatim>\<open>NEO4J_VECTOR_DIMENSIONS=2048\<close> gives a 2048-dimensional one.
\<close>

theorem index_dimension_inherits_or_overrides_witness:
  "vectorIndexDimensions
     (config (validate [''OPENAI_EMBEDDING_MODEL'' \<mapsto> ''text-embedding-3-large''])) = Dim 3072
   \<and> vectorIndexDimensions
       (config (validate [''OPENAI_EMBEDDING_MODEL'' \<mapsto> ''text-embedding-3-large'',
                          ''NEO4J_VECTOR_DIMENSIONS'' \<mapsto> ''2048''])) = Dim 2048"
proof -
  let ?e1 = "[''OPENAI_EMBEDDING_MODEL'' \<mapsto> ''text-embedding-3-large'']"
  let ?e2 = "[''OPENAI_EMBEDDING_MODEL'' \<mapsto> ''text-embedding-3-large'',
              ''NEO4J_VECTOR_DIMENSIONS'' \<mapsto> ''2048'']"
  have absent: "\<not> env_truthy ?e1 ''NEO4J_VECTOR_DIMENSIONS''"
    by (simp add: env_truthy_def)
  have emb: "dimensions (config (validate ?e1)) = Dim 3072"
    by (simp add: validate_dimensions resolveEmbeddingDimensions_def env_truthy_def
          embeddingModel_of_def env_or_def getModelDimensions_def lookup_or_def
          OPENAI_MODEL_DIMENSIONS_def)
  have present: "?e2 ''NEO4J_VECTOR_DIMENSIONS'' = Some ''2048'' \<and> ''2048'' \<noteq> []
                   \<and> parseInt ''2048'' = Some 2048"
    by (simp add: parseInt_2048)
  show ?thesis
    using index_dimension_inherits_or_overrides [of ?e1]
      index_dimension_inherits_or_overrides [of ?e2] absent emb present
    by metis
qed

lemma validate_warnings_model:
  "(UnrecognizedModel m ks \<in> set (warnings (validate env))) =
     (m = embeddingModel_of env \<and> ks = map fst OPENAI_MODEL_DIMENSIONS
      \<and> \<not> key_in (embeddingModel_of env) OPENAI_MODEL_DIMENSIONS
      \<and> env ''MOCK_EMBEDDINGS'' \<noteq> Some ''true'')"
  by (auto simp add: validate_def Let_def split: prod.splits)

lemma validate_errors_no_override:
  "\<not> env_truthy env ''OPENAI_EMBEDDING_DIMENSIONS'' \<Longrightarrow>
   \<not> env_truthy env ''NEO4J_VECTOR_DIMENSIONS'' \<Longrightarrow>
     errors (validate env) = [] \<and> isValid (validate env)"
  by (simp add: validate_def Let_def resolveEmbeddingDimensions_def
        resolveVectorIndexDimensions_def split: prod.splits)

text \<open>
  C7, as the claim states it, fails: with \<^verbatim>\<open>MOCK_EMBEDDINGS=true\<close> the validator
  records no warning for a model name that is in neither table; the only warning is
  the one about the mock embeddings.
\<close>

theorem unknown_model_counterexample:
  "map_of OPENAI_MODEL_DIMENSIONS ''my-model'' = None
   \<and> map_of VOYAGE_MODEL_DIMENSIONS ''my-model'' = None
   \<and> getModelDimensions ''my-model'' = Dim 1536
   \<and> warnings (validate [''OPENAI_EMBEDDING_MODEL'' \<mapsto> ''my-model'',
                         ''MOCK_EMBEDDINGS'' \<mapsto> ''true'']) = [MockEmbeddingsSet]
   \<and> UnrecognizedModel ''my-model'' (map fst OPENAI_MODEL_DIMENSIONS)
       \<notin> set (warnings (validate [''OPENAI_EMBEDDING_MODEL'' \<mapsto> ''my-model'',
                                   ''MOCK_EMBEDDINGS'' \<mapsto> ''true'']))"
  by (simp add: OPENAI_MODEL_DIMENSIONS_def VOYAGE_MODEL_DIMENSIONS_def getModelDimensions_def
      lookup_or_def object_prototype_keys_def validate_def Let_def embeddingModel_of_def
      env_or_def env_truthy_def key_in_def resolveEmbeddingDimensions_def
      resolveVectorIndexDimensions_def)

text \<open>
  C7, amended. For every model name that is in neither table and is not the name of a
  member of \<^verbatim>\<open>Object.prototype\<close>: when the name does not start with \<^verbatim>\<open>voyage-\<close>,
  \<^verbatim>\<open>getModelDimensions\<close> returns 1536; \<^verbatim>\<open>validate\<close>, run with that name as
  \<^verbatim>\<open>OPENAI_EMBEDDING_MODEL\<close>, records the unrecognized-model warning exactly when
  \<^verbatim>\<open>MOCK_EMBEDDINGS\<close> is not \<^verbatim>\<open>true\<close>, and with no dimension override set it reports
  no error and a valid configuration. Nothing is said here of the default for the
  names that start with \<^verbatim>\<open>voyage-\<close>.
\<close>

theorem unknown_model_dimensions:
  assumes "map_of OPENAI_MODEL_DIMENSIONS m = None"
    and "map_of VOYAGE_MODEL_DIMENSIONS m = None"
    and "m \<notin> set object_prototype_keys"
  shows "(\<not> prefix ''voyage-'' m \<longrightarrow> getModelDimensions m = Dim 1536)
    \<and> (\<forall>env. env ''OPENAI_EMBEDDING_MODEL'' = Some m \<and> m \<noteq> [] \<longrightarrow>
          ((UnrecognizedModel m (map fst OPENAI_MODEL_DIMENSIONS) \<in> set (warnings (validate env)))
             = (env ''MOCK_EMBEDDINGS'' \<noteq> Some ''true''))
          \<and> (\<not> env_truthy env ''OPENAI_EMBEDDING_DIMENSIONS''
               \<and> \<not> env_truthy env ''NEO4J_VECTOR_DIMENSIONS''
               \<longrightarrow> errors (validate env) = [] \<and> isValid (validate env)))"
proof -
  have dims: "getModelDimensions m = Dim 1536" if "\<not> prefix ''voyage-'' m"
    using assms that by (simp add: getModelDimensions_def lookup_or_def)
  have warn: "(UnrecognizedModel m (map fst OPENAI_MODEL_DIMENSIONS) \<in> set (warnings (validate env)))
             = (env ''MOCK_EMBEDDINGS'' \<noteq> Some ''true'')"
    if "env ''OPENAI_EMBEDDING_MODEL'' = Some m" "m \<noteq> []" for env
  proof -
    have "embeddingModel_of env = m"
      using that by (simp add: embeddingModel_of_def env_or_def)
    moreover have "\<not> key_in m OPENAI_MODEL_DIMENSIONS"
      using assms by (simp add: key_in_def)
    ultimately show ?thesis
      by (simp add: validate_warnings_model)
  qed
  show ?thesis
    using dims warn validate_errors_no_override by blast
qed

theorem unknown_model_dimensions_witness:
  "getModelDimensions ''my-model'' = Dim 1536
   \<and> UnrecognizedModel ''my-model'' (map fst OPENAI_MODEL_DIMENSIONS)
       \<in> set (warnings (validate [''OPENAI_EMBEDDING_MODEL'' \<mapsto> ''my-model'']))
   \<and> isValid (validate [''OPENAI_EMBEDDING_MODEL'' \<mapsto> ''my-model''])"
proof -
  have 1: "map_of OPENAI_MODEL_DIMENSIONS ''my-model'' = None"
    by (simp add: OPENAI_MODEL_DIMENSIONS_def)
  have 2: "map_of VOYAGE_MODEL_DIMENSIONS ''my-model'' = None"
    by (simp add: VOYAGE_MODEL_DIMENSIONS_def)
  have 3: "''my-model'' \<notin> set object_prototype_keys"
    by (simp add: object_prototype_keys_def)
  show ?thesis
    using unknown_model_dimensions [OF 1 2 3]
    by (simp add: env_truthy_def)
qed

section \<open>Provider failures\<close>

lemma voyage_rethrow_kind: "error_kind (voyage_rethrow m) = Some ''Error''"
  by (simp add: voyage_rethrow_def new_Error_def)

lemma cohere_rethrow_kind: "error_kind (cohere_rethrow m) = Some ''Error''"
  by (simp add: cohere_rethrow_def new_Error_def)

lemma voyage_rethrow_message:
  "getErrorMessage (voyage_rethrow m) = ''Voyage AI API authentication failed - invalid API key''
   \<or> getErrorMessage (voyage_rethrow m) = ''Voyage AI API rate limit exceeded - try again later''
   \<or> getErrorMessage (voyage_rethrow m) = ''Voyage AI API server error - try again later''
   \<or> getErrorMessage (voyage_rethrow m) = ''Error generating embedding: '' @ m"
  by (simp add: voyage_rethrow_def new_Error_def)

lemma cohere_rethrow_message:
  "getErrorMessage (cohere_rethrow m) = ''Cohere API authentication failed - invalid API key''
   \<or> getErrorMessage (cohere_rethrow m) = ''Cohere API rate limit exceeded - try again later''
   \<or> getErrorMessage (cohere_rethrow m) = ''Cohere API server error - try again later''
   \<or> getErrorMessage (cohere_rethrow m) = ''Error reranking documents: '' @ m"
  by (simp add: cohere_rethrow_def new_Error_def)

lemma single_embedding_failure:
  "single_embedding response = Inl error \<Longrightarrow>
     error = new_Error ''Invalid response from Voyage AI API - missing embedding data''
     \<or> error = new_Error ''Invalid embedding returned from Voyage AI API''"
  by (auto simp add: single_embedding_def
        split: embed_response.splits list.splits embedding_field.splits if_splits)

lemma batch_items_failure:
  "batch_items items = Inl error \<Longrightarrow> error = new_Error ''Invalid embedding in batch response''"
proof (induction items)
  case Nil
  then show ?case by simp
next
  case (Cons item items)
  then show ?case
    by (cases item) (auto split: sum.splits)
qed

lemma batch_embeddings_failure:
  assumes "batch_embeddings response = Inl error"
  shows "error = new_Error ''Invalid response from Voyage AI API - no embeddings returned''
     \<or> error = new_Error ''Invalid embedding in batch response''"
proof (cases response)
  case NoEmbedResponse
  with assms show ?thesis by (simp add: batch_embeddings_def)
next
  case NoEmbedData
  with assms show ?thesis by (simp add: batch_embeddings_def)
next
  case (EmbedData items)
  show ?thesis
  proof (cases items)
    case Nil
    with assms EmbedData show ?thesis by (simp add: batch_embeddings_def)
  next
    case (Cons item rest)
    with assms EmbedData have "batch_items (item # rest) = Inl error"
      by (simp add: batch_embeddings_def)
    from batch_items_failure [OF this] show ?thesis by simp
  qed
qed

lemma rerank_items_failure:
  "rerank_items documents results = Inl error \<Longrightarrow>
     error = Thrown_Error ''TypeError'' ''Cannot read properties of undefined (reading 'id')''"
proof (induction results)
  case Nil
  then show ?case by simp
next
  case (Cons r results)
  then show ?case
    by (auto simp add: rerank_item_def Let_def split: sum.splits if_splits)
qed

text \<open>
  The failures inside the \<^verbatim>\<open>try\<close> block of each call, by the message the \<^verbatim>\<open>catch\<close>
  clause reads from them: the message of what the client threw, or the fixed text of
  the check that rejected the response.
\<close>

lemma voyage_failure_rethrown:
  assumes "voyage_generateEmbedding svc client t = Inl e"
  shows "\<exists>m. e = voyage_rethrow m
     \<and> ((\<exists>u. client (embedParams svc [t]) = Inl u \<and> m = getErrorMessage u)
        \<or> (\<exists>response. client (embedParams svc [t]) = Inr response
             \<and> (m = ''Invalid response from Voyage AI API - missing embedding data''
                \<or> m = ''Invalid embedding returned from Voyage AI API'')))"
proof (cases "client (embedParams svc [t])")
  case (Inl u)
  with assms show ?thesis
    by (auto simp add: voyage_generateEmbedding_def)
next
  case (Inr response)
  with assms obtain error where error: "single_embedding response = Inl error"
    and e: "e = voyage_rethrow (getErrorMessage error)"
    by (auto simp add: voyage_generateEmbedding_def split: sum.splits)
  from single_embedding_failure [OF error] e Inr show ?thesis
    by (auto simp add: new_Error_def)
qed

lemma voyage_batch_failure:
  assumes "voyage_generateEmbeddings svc client ts = Inl e"
  shows "\<exists>m. e = new_Error (''Failed to generate embeddings: '' @ m)
     \<and> ((\<exists>u. client (embedParams svc ts) = Inl u \<and> m = getErrorMessage u)
        \<or> (\<exists>response. client (embedParams svc ts) = Inr response
             \<and> (m = ''Invalid response from Voyage AI API - no embeddings returned''
                \<or> m = ''Invalid embedding in batch response'')))"
proof (cases "client (embedParams svc ts)")
  case (Inl u)
  with assms show ?thesis
    by (auto simp add: voyage_generateEmbeddings_def)
next
  case (Inr response)
  with assms obtain error where error: "batch_embeddings response = Inl error"
    and e: "e = new_Error (''Failed to generate embeddings: '' @ getErrorMessage error)"
    by (auto simp add: voyage_generateEmbeddings_def split: sum.splits)
  from batch_embeddings_failure [OF error] e Inr show ?thesis
    by (auto simp add: new_Error_def)
qed

lemma rerank_failure_rethrown:
  assumes "rerank co rclient query documents topN = Inl e"
  shows "\<exists>m. e = cohere_rethrow m
     \<and> ((\<exists>u request. rclient request = Inl u \<and> m = getErrorMessage u)
        \<or> (\<exists>request response. rclient request = Inr response
             \<and> (m = ''Invalid response from Cohere rerank API''
                \<or> m = ''Cannot read properties of undefined (reading 'id')'')))"
proof -
  let ?request = "\<lparr> rq_query = query, rq_documents = map doc_text documents,
                    rq_model = co_model co,
                    rq_topN = num_or topN (num_or (co_topN co) (int (length documents))) \<rparr>"
  from assms have ne: "documents \<noteq> []"
    by (auto simp add: rerank_def)
  show ?thesis
  proof (cases "rclient ?request")
    case (Inl u)
    with assms ne have "e = cohere_rethrow (getErrorMessage u)"
      by (simp add: rerank_def Let_def)
    with Inl show ?thesis by blast
  next
    case (Inr response)
    show ?thesis
    proof (cases response)
      case NoRerankResponse
      with assms ne Inr have "e = cohere_rethrow ''Invalid response from Cohere rerank API''"
        by (simp add: rerank_def Let_def)
      with Inr show ?thesis by blast
    next
      case NoRerankResults
      with assms ne Inr have "e = cohere_rethrow ''Invalid response from Cohere rerank API''"
        by (simp add: rerank_def Let_def)
      with Inr show ?thesis by blast
    next
      case (RerankResults results)
      with assms ne Inr obtain error where error: "rerank_items documents results = Inl error"
        and e: "e = cohere_rethrow (getErrorMessage error)"
        by (auto simp add: rerank_def Let_def split: sum.splits)
      from rerank_items_failure [OF error] e
      have "e = cohere_rethrow ''Cannot read properties of undefined (reading 'id')''"
        by simp
      with Inr show ?thesis by blast
    qed
  qed
qed

text \<open>
  C4, amended. Every failure of \<^verbatim>\<open>generateEmbedding\<close>, \<^verbatim>\<open>generateEmbeddings\<close> and
  \<^verbatim>\<open>rerank\<close> is surfaced as a plain \<^verbatim>\<open>Error\<close>, and its message is a function of the
  upstream message \<open>m\<close>, which is the message of what the client threw or the fixed text
  of the check that rejected the client's answer. For \<^verbatim>\<open>generateEmbedding\<close> and
  \<^verbatim>\<open>rerank\<close> the message is the fixed authentication text when \<open>m\<close> contains
  \<^verbatim>\<open>401\<close> or \<^verbatim>\<open>authentication\<close>, else the fixed rate-limit text when it contains
  \<^verbatim>\<open>429\<close> or \<^verbatim>\<open>rate limit\<close>, else the fixed server-error text when it contains
  \<^verbatim>\<open>500\<close> or \<^verbatim>\<open>503\<close>, and else a fixed prefix followed by \<open>m\<close> itself; for
  \<^verbatim>\<open>generateEmbeddings\<close> it is always a fixed prefix followed by \<open>m\<close>. So the class of
  the failure is in the message alone. And a throwing client makes each call fail in
  this way.
\<close>

theorem provider_errors_differ_only_in_message:
  "(voyage_generateEmbedding svc client t = Inl e \<longrightarrow>
      error_kind e = Some ''Error''
      \<and> (\<exists>m. ((\<exists>u. client (embedParams svc [t]) = Inl u \<and> m = getErrorMessage u)
               \<or> (\<exists>response. client (embedParams svc [t]) = Inr response
                    \<and> (m = ''Invalid response from Voyage AI API - missing embedding data''
                       \<or> m = ''Invalid embedding returned from Voyage AI API'')))
            \<and> getErrorMessage e =
                (if str_includes m ''401'' \<or> str_includes m ''authentication''
                 then ''Voyage AI API authentication failed - invalid API key''
                 else if str_includes m ''429'' \<or> str_includes m ''rate limit''
                 then ''Voyage AI API rate limit exceeded - try again later''
                 else if str_includes m ''500'' \<or> str_includes m ''503''
                 then ''Voyage AI API server error - try again later''
                 else ''Error generating embedding: '' @ m)))
   \<and> (client (embedParams svc [t]) = Inl u \<longrightarrow>
        (\<exists>e. voyage_generateEmbedding svc client t = Inl e))
   \<and> (voyage_generateEmbeddings svc client ts = Inl eb \<longrightarrow>
      error_kind eb = Some ''Error''
      \<and> (\<exists>m. ((\<exists>u. client (embedParams svc ts) = Inl u \<and> m = getErrorMessage u)
               \<or> (\<exists>response. client (embedParams svc ts) = Inr response
                    \<and> (m = ''Invalid response from Voyage AI API - no embeddings returned''
                       \<or> m = ''Invalid embedding in batch response'')))
            \<and> getErrorMessage eb = ''Failed to generate embeddings: '' @ m))
   \<and> (client (embedParams svc ts) = Inl u \<longrightarrow>
        (\<exists>e. voyage_generateEmbeddings svc client ts = Inl e))
   \<and> (rerank co rclient query documents topN = Inl e' \<longrightarrow>
      error_kind e' = Some ''Error''
      \<and> (\<exists>m. ((\<exists>u request. rclient request = Inl u \<and> m = getErrorMessage u)
               \<or> (\<exists>request response. rclient request = Inr response
                    \<and> (m = ''Invalid response from Cohere rerank API''
                       \<or> m = ''Cannot read properties of undefined (reading 'id')'')))
            \<and> getErrorMessage e' =
                (if str_includes m ''401'' \<or> str_includes m ''authentication''
                 then ''Cohere API authentication failed - invalid API key''
                 else if str_includes m ''429'' \<or> str_includes m ''rate limit''
                 then ''Cohere API rate limit exceeded - try again later''
                 else if str_includes m ''500'' \<or> str_includes m ''503''
                 then ''Cohere API server error - try again later''
                 else ''Error reranking documents: '' @ m)))
   \<and> (documents \<noteq> [] \<and> (\<forall>request. rclient request = Inl u') \<longrightarrow>
        (\<exists>e. rerank co rclient query documents topN = Inl e))"
proof (intro conjI impI)
  assume "voyage_generateEmbedding svc client t = Inl e"
  from voyage_failure_rethrown [OF this] obtain m where e: "e = voyage_rethrow m"
    and m: "(\<exists>u. client (embedParams svc [t]) = Inl u \<and> m = getErrorMessage u)
        \<or> (\<exists>response. client (embedParams svc [t]) = Inr response
             \<and> (m = ''Invalid response from Voyage AI API - missing embedding data''
                \<or> m = ''Invalid embedding returned from Voyage AI API''))"
    by blast
  show "error_kind e = Some ''Error''"
    by (simp add: e voyage_rethrow_kind)
  have "getErrorMessage e =
                (if str_includes m ''401'' \<or> str_includes m ''authentication''
                 then ''Voyage AI API authentication failed - invalid API key''
                 else if str_includes m ''429'' \<or> str_includes m ''rate limit''
                 then ''Voyage AI API rate limit exceeded - try again later''
                 else if str_includes m ''500'' \<or> str_includes m ''503''
                 then ''Voyage AI API server error - try again later''
                 else ''Error generating embedding: '' @ m)"
    by (simp add: e voyage_rethrow_def new_Error_def)
  with m show "\<exists>m. ((\<exists>u. client (embedParams svc [t]) = Inl u \<and> m = getErrorMessage u)
               \<or> (\<exists>response. client (embedParams svc [t]) = Inr response
                    \<and> (m = ''Invalid response from Voyage AI API - missing embedding data''
                       \<or> m = ''Invalid embedding returned from Voyage AI API'')))
            \<and> getErrorMessage e =
                (if str_includes m ''401'' \<or> str_includes m ''authentication''
                 then ''Voyage AI API authentication failed - invalid API key''
                 else if str_includes m ''429'' \<or> str_includes m ''rate limit''
                 then ''Voyage AI API rate limit exceeded - try again later''
                 else if str_includes m ''500'' \<or> str_includes m ''503''
                 then ''Voyage AI API server error - try again later''
                 else ''Error generating embedding: '' @ m)"
    by blast
next
  assume "client (embedParams svc [t]) = Inl u"
  then show "\<exists>e. voyage_generateEmbedding svc client t = Inl e"
    by (simp add: voyage_generateEmbedding_def)
next
  assume "voyage_generateEmbeddings svc client ts = Inl eb"
  from voyage_batch_failure [OF this] obtain m
    where e: "eb = new_Error (''Failed to generate embeddings: '' @ m)"
    and m: "(\<exists>u. client (embedParams svc ts) = Inl u \<and> m = getErrorMessage u)
        \<or> (\<exists>response. client (embedParams svc ts) = Inr response
             \<and> (m = ''Invalid response from Voyage AI API - no embeddings returned''
                \<or> m = ''Invalid embedding in batch response''))"
    by blast
  show "error_kind eb = Some ''Error''"
    by (simp add: e new_Error_def)
  have "getErrorMessage eb = ''Failed to generate embeddings: '' @ m"
    by (simp add: e new_Error_def)
  with m show "\<exists>m. ((\<exists>u. client (embedParams svc ts) = Inl u \<and> m = getErrorMessage u)
               \<or> (\<exists>response. client (embedParams svc ts) = Inr response
                    \<and> (m = ''Invalid response from Voyage AI API - no embeddings returned''
                       \<or> m = ''Invalid embedding in batch response'')))
            \<and> getErrorMessage eb = ''Failed to generate embeddings: '' @ m"
    by blast
next
  assume "client (embedParams svc ts) = Inl u"
  then show "\<exists>e. voyage_generateEmbeddings svc client ts = Inl e"
    by (simp add: voyage_generateEmbeddings_def)
next
  assume "rerank co rclient query documents topN = Inl e'"
  from rerank_failure_rethrown [OF this] obtain m where e: "e' = cohere_rethrow m"
    and m: "(\<exists>u request. rclient request = Inl u \<and> m = getErrorMessage u)
        \<or> (\<exists>request response. rclient request = Inr response
             \<and> (m = ''Invalid response from Cohere rerank API''
                \<or> m = ''Cannot read properties of undefined (reading 'id')''))"
    by blast
  show "error_kind e' = Some ''Error''"
    by (simp add: e cohere_rethrow_kind)
  have "getErrorMessage e' =
                (if str_includes m ''401'' \<or> str_includes m ''authentication''
                 then ''Cohere API authentication failed - invalid API key''
                 else if str_includes m ''429'' \<or> str_includes m ''rate limit''
                 then ''Cohere API rate limit exceeded - try again later''
                 else if str_includes m ''500'' \<or> str_includes m ''503''
                 then ''Cohere API server error - try again later''
                 else ''Error reranking documents: '' @ m)"
    by (simp add: e cohere_rethrow_def new_Error_def)
  with m show "\<exists>m. ((\<exists>u request. rclient request = Inl u \<and> m = getErrorMessage u)
               \<or> (\<exists>request response. rclient request = Inr response
                    \<and> (m = ''Invalid response from Cohere rerank API''
                       \<or> m = ''Cannot read properties of undefined (reading 'id')'')))
            \<and> getErrorMessage e' =
                (if str_includes m ''401'' \<or> str_includes m ''authentication''
                 then ''Cohere API authentication failed - invalid API key''
                 else if str_includes m ''429'' \<or> str_includes m ''rate limit''
                 then ''Cohere API rate limit exceeded - try again later''
                 else if str_includes m ''500'' \<or> str_includes m ''503''
                 then ''Cohere API server error - try again later''
                 else ''Error reranking documents: '' @ m)"
    by blast
next
  assume "documents \<noteq> [] \<and> (\<forall>request. rclient request = Inl u')"
  then show "\<exists>e. rerank co rclient query documents topN = Inl e"
    by (simp add: rerank_def Let_def)
qed

text \<open>
  C4, as the claim states it, fails: the error surfaced for an upstream 401 and the one
  surfaced for an upstream 429 are both plain \<^verbatim>\<open>Error\<close> objects, so their kind is the
  same and only the message differs.
\<close>

theorem provider_error_kind_counterexample:
  "voyage_rethrow ''401 Unauthorized''
     = Thrown_Error ''Error'' ''Voyage AI API authentication failed - invalid API key''
   \<and> voyage_rethrow ''429 Too Many Requests''
     = Thrown_Error ''Error'' ''Voyage AI API rate limit exceeded - try again later''
   \<and> error_kind (voyage_rethrow ''401 Unauthorized'')
     = error_kind (voyage_rethrow ''429 Too Many Requests'')
   \<and> cohere_rethrow ''401 Unauthorized''
     = Thrown_Error ''Error'' ''Cohere API authentication failed - invalid API key''
   \<and> cohere_rethrow ''429 Too Many Requests''
     = Thrown_Error ''Error'' ''Cohere API rate limit exceeded - try again later''
   \<and> error_kind (cohere_rethrow ''401 Unauthorized'')
     = error_kind (cohere_rethrow ''429 Too Many Requests'')"
  by (simp add: voyage_rethrow_def cohere_rethrow_def new_Error_def)

text \<open>
  A rate-limited single call, an unauthorized batch call, an unauthorized rerank call,
  and a single call whose client fails with a message of no known class.
\<close>

theorem provider_errors_differ_only_in_message_witness:
  "voyage_generateEmbedding
     \<lparr> svc_apiKey = ''key'', svc_model = ''voyage-3-large'', svc_dimensions = Dim 1024,
       svc_version = ''3.0.0'', svc_inputType = Document \<rparr>
     (\<lambda>p. Inl (new_Error ''429 Too Many Requests'')) ''some text''
     = Inl (Thrown_Error ''Error'' ''Voyage AI API rate limit exceeded - try again later'')
   \<and> error_kind (Thrown_Error ''Error'' ''Voyage AI API rate limit exceeded - try again later'')
     = Some ''Error''
   \<and> voyage_generateEmbeddings
     \<lparr> svc_apiKey = ''key'', svc_model = ''voyage-3-large'', svc_dimensions = Dim 1024,
       svc_version = ''3.0.0'', svc_inputType = Document \<rparr>
     (\<lambda>p. Inl (new_Error ''401 Unauthorized'')) [''some text'']
     = Inl (Thrown_Error ''Error'' ''Failed to generate embeddings: 401 Unauthorized'')
   \<and> rerank \<lparr> co_model = ''rerank-english-v3.0'', co_topN = None \<rparr>
       (\<lambda>r. Inl (new_Error ''401 Unauthorized'')) ''a query''
       [\<lparr> doc_id = ''a'', doc_text = ''text of a'', doc_metadata = None \<rparr>] None
     = Inl (Thrown_Error ''Error'' ''Cohere API authentication failed - invalid API key'')
   \<and> error_kind (Thrown_Error ''Error'' ''Cohere API authentication failed - invalid API key'')
     = Some ''Error''
   \<and> voyage_generateEmbedding
     \<lparr> svc_apiKey = ''key'', svc_model = ''voyage-3-large'', svc_dimensions = Dim 1024,
       svc_version = ''3.0.0'', svc_inputType = Document \<rparr>
     (\<lambda>p. Inl (new_Error ''connection reset'')) ''some text''
     = Inl (Thrown_Error ''Error'' ''Error generating embedding: connection reset'')"
proof -
  let ?svc = "\<lparr> svc_apiKey = ''key'', svc_model = ''voyage-3-large'', svc_dimensions = Dim 1024,
       svc_version = ''3.0.0'', svc_inputType = Document \<rparr>"
  let ?co = "\<lparr> co_model = ''rerank-english-v3.0'', co_topN = None \<rparr>"
  let ?docs = "[\<lparr> doc_id = ''a'', doc_text = ''text of a'', doc_metadata = None \<rparr>]"
  let ?e = "Thrown_Error ''Error'' ''Voyage AI API rate limit exceeded - try again later''"
  let ?e' = "Thrown_Error ''Error'' ''Cohere API authentication failed - invalid API key''"
  let ?eb = "Thrown_Error ''Error'' ''Failed to generate embeddings: 401 Unauthorized''"
  have 1: "voyage_generateEmbedding ?svc (\<lambda>p. Inl (new_Error ''429 Too Many Requests''))
             ''some text'' = Inl ?e"
    by (simp add: voyage_generateEmbedding_def voyage_rethrow_def new_Error_def)
  have 2: "voyage_generateEmbeddings ?svc (\<lambda>p. Inl (new_Error ''401 Unauthorized''))
             [''some text''] = Inl ?eb"
    by (simp add: voyage_generateEmbeddings_def new_Error_def)
  have 3: "rerank ?co (\<lambda>r. Inl (new_Error ''401 Unauthorized'')) ''a query'' ?docs None = Inl ?e'"
    by (simp add: rerank_def cohere_rethrow_def new_Error_def)
  have 4: "voyage_generateEmbedding ?svc (\<lambda>p. Inl (new_Error ''connection reset''))
             ''some text''
           = Inl (Thrown_Error ''Error'' ''Error generating embedding: connection reset'')"
    by (simp add: voyage_generateEmbedding_def voyage_rethrow_def new_Error_def)
  show ?thesis
    using 1 2 3 4
      provider_errors_differ_only_in_message
        [where svc = "?svc" and client = "\<lambda>p. Inl (new_Error ''429 Too Many Requests'')"
           and t = "''some text''" and e = "?e"
           and co = "?co" and rclient = "\<lambda>r. Inl (new_Error ''401 Unauthorized'')"
           and query = "''a query''" and documents = "?docs" and topN = None and e' = "?e'"]
      provider_errors_differ_only_in_message
        [where svc = "?svc" and client = "\<lambda>p. Inl (new_Error ''401 Unauthorized'')"
           and ts = "[''some text'']" and eb = "?eb"]
    by simp
qed

section \<open>The Voyage AI service: the request and the reported dimension\<close>

text \<open>
  C10. For a service constructed with a non-zero \<^verbatim>\<open>dimensions\<close> override \<open>d\<close> and a
  model whose name does not start with \<^verbatim>\<open>voyage-3\<close>: the request built for the single
  and for the batch call has no \<^verbatim>\<open>outputDimension\<close>, \<^verbatim>\<open>getModelInfo().dimensions\<close> is
  \<open>d\<close>, and both calls return the provider's vectors as they are, whatever their
  length, so the reported dimension and the length of a generated vector can differ.
\<close>

theorem voyage_override_not_sent:
  assumes "newVoyageAIEmbeddingService env cfg = Inr svc"
    and "cfg_dimensions cfg = Some d" and "d \<noteq> 0"
    and "\<not> prefix ''voyage-3'' (svc_model svc)"
  shows "ep_outputDimension (embedParams svc texts) = None
    \<and> info_dimensions (getModelInfo svc) = Dim d
    \<and> (\<forall>client e. client (embedParams svc [t]) = Inr (EmbedData [EmbeddingArray e]) \<and> e \<noteq> []
          \<longrightarrow> voyage_generateEmbedding svc client t = Inr e)
    \<and> (\<forall>client es. client (embedParams svc texts) = Inr (EmbedData (map EmbeddingArray es)) \<and> es \<noteq> []
          \<longrightarrow> voyage_generateEmbeddings svc client texts = Inr es)"
proof -
  have dims: "svc_dimensions svc = Dim d"
    using assms(1,2,3)
    by (auto simp add: newVoyageAIEmbeddingService_def Let_def split: if_splits)
  have params: "ep_outputDimension (embedParams svc texts) = None"
    using assms(4) by (simp add: embedParams_def)
  have info: "info_dimensions (getModelInfo svc) = Dim d"
    using dims by (simp add: getModelInfo_def)
  have single: "voyage_generateEmbedding svc client t = Inr e"
    if "client (embedParams svc [t]) = Inr (EmbedData [EmbeddingArray e])" "e \<noteq> []"
    for client e
    using that by (simp add: voyage_generateEmbedding_def single_embedding_def)
  have items: "batch_items (map EmbeddingArray es) = Inr es" for es
    by (induction es) simp_all
  have batch: "voyage_generateEmbeddings svc client texts = Inr es"
    if "client (embedParams svc texts) = Inr (EmbedData (map EmbeddingArray es))" "es \<noteq> []"
    for client es
    using that items [of es]
    by (cases es) (simp_all add: voyage_generateEmbeddings_def batch_embeddings_def)
  show ?thesis
    using params info single batch by blast
qed

text \<open>
  \<^verbatim>\<open>voyage-code-2\<close> with an override of 2048: the request asks for no dimension, the
  service reports 2048, and a vector of three numbers comes back as it is.
\<close>

theorem voyage_override_not_sent_witness:
  "newVoyageAIEmbeddingService Map.empty
     \<lparr> cfg_apiKey = ''key'', cfg_model = Some ''voyage-code-2'',
       cfg_dimensions = Some 2048, cfg_version = None, cfg_inputType = None \<rparr>
     = Inr \<lparr> svc_apiKey = ''key'', svc_model = ''voyage-code-2'', svc_dimensions = Dim 2048,
             svc_version = ''3.0.0'', svc_inputType = Document \<rparr>
   \<and> ep_outputDimension
     (embedParams \<lparr> svc_apiKey = ''key'', svc_model = ''voyage-code-2'', svc_dimensions = Dim 2048,
                    svc_version = ''3.0.0'', svc_inputType = Document \<rparr> [''some text'']) = None
   \<and> info_dimensions
       (getModelInfo \<lparr> svc_apiKey = ''key'', svc_model = ''voyage-code-2'', svc_dimensions = Dim 2048,
                      svc_version = ''3.0.0'', svc_inputType = Document \<rparr>) = Dim 2048
   \<and> voyage_generateEmbedding
       \<lparr> svc_apiKey = ''key'', svc_model = ''voyage-code-2'', svc_dimensions = Dim 2048,
         svc_version = ''3.0.0'', svc_inputType = Document \<rparr>
       (\<lambda>p. Inr (EmbedData [EmbeddingArray [1 / 2, 1 / 3, 1 / 4]])) ''some text''
       = Inr [1 / 2, 1 / 3, 1 / 4]"
proof -
  let ?cfg = "\<lparr> cfg_apiKey = ''key'', cfg_model = Some ''voyage-code-2'',
                cfg_dimensions = Some 2048, cfg_version = None, cfg_inputType = None \<rparr>"
  let ?svc = "\<lparr> svc_apiKey = ''key'', svc_model = ''voyage-code-2'', svc_dimensions = Dim 2048,
                svc_version = ''3.0.0'', svc_inputType = Document \<rparr>"
  have 1: "newVoyageAIEmbeddingService Map.empty ?cfg = Inr ?svc"
    by (simp add: newVoyageAIEmbeddingService_def str_or_def env_or_def)
  have 2: "cfg_dimensions ?cfg = Some 2048" by simp
  have 3: "(2048::int) \<noteq> 0" by simp
  have 4: "\<not> prefix ''voyage-3'' (svc_model ?svc)" by simp
  show ?thesis
    using 1 voyage_override_not_sent [OF 1 2 3 4, of "[''some text'']" "''some text''"]
    by simp
qed

section \<open>Reranked search results\<close>

lemma rerank_items_Inr:
  "rerank_items documents rs = Inr out \<Longrightarrow>
     length out = length rs \<and>
     (\<forall>j < length rs. rerank_item documents (rs ! j) = Inr (out ! j))"
proof (induction rs arbitrary: out)
  case Nil
  then show ?case by simp
next
  case (Cons r rs)
  then obtain x xs where x: "rerank_item documents r = Inr x"
    and xs: "rerank_items documents rs = Inr xs" and out: "out = x # xs"
    by (auto split: sum.splits)
  from Cons.IH [OF xs] x out show ?case
    by (auto simp add: nth_Cons split: nat.splits)
qed

lemma rerank_items_total:
  "\<forall>r \<in> set rs. fst r < length documents \<Longrightarrow> \<exists>out. rerank_items documents rs = Inr out"
  by (induction rs) (auto simp add: rerank_item_def Let_def)

lemma rerank_Inr:
  assumes "rerank svc client query documents topN = Inr out" and "documents \<noteq> []"
  shows "\<exists>rs. client \<lparr> rq_query = query, rq_documents = map doc_text documents,
                        rq_model = co_model svc,
                        rq_topN = num_or topN (num_or (co_topN svc) (int (length documents))) \<rparr>
               = Inr (RerankResults rs)
             \<and> rerank_items documents rs = Inr out"
  using assms
  by (auto simp add: rerank_def Let_def split: sum.splits rerank_response.splits)

lemma rerank_item_fields:
  assumes "rerank_item (map (toRerankDocument entityTexts) results) r = Inr x"
  shows "fst r < length results
    \<and> vsr_id (fromRerankResult x) = vsr_id (results ! fst r)
    \<and> vsr_similarity (fromRerankResult x) = snd r
    \<and> vsr_metadata (fromRerankResult x) ''originalSimilarity''
        = Some (JNum (vsr_similarity (results ! fst r)))
    \<and> vsr_metadata (fromRerankResult x) ''searchMethod'' = Some (JStr ''vector+rerank'')"
proof -
  have lt: "fst r < length results"
    using assms by (simp add: rerank_item_def split: if_splits)
  have x: "x = \<lparr> rr_id = vsr_id (results ! fst r),
                 rr_score = JNum (vsr_similarity (results ! fst r)),
                 rr_relevanceScore = snd r,
                 rr_metadata = ((vsr_metadata (results ! fst r))
                                  (''originalScore'' \<mapsto> JNum (vsr_similarity (results ! fst r))))
                         (''rerankScore'' \<mapsto> JNum (snd r),
                          ''rerankIndex'' \<mapsto> JNum (of_nat (fst r))) \<rparr>"
    using assms lt
    by (simp add: rerank_item_def Let_def toRerankDocument_def originalScore_of_def)
  show ?thesis
    using lt by (simp add: x fromRerankResult_def)
qed

text \<open>
  C8. For a non-empty result list: whenever \<^verbatim>\<open>rerankVectorSearchResults\<close> returns, the
  reranker answered with a list of \<^verbatim>\<open>{index, relevanceScore}\<close>, and the \<open>j\<close>-th returned
  result is built from the input result at the \<open>j\<close>-th index: it has that result's id,
  its \<^verbatim>\<open>similarity\<close> is the \<open>j\<close>-th relevance score, its metadata holds the input
  result's similarity as \<^verbatim>\<open>originalSimilarity\<close> and \<^verbatim>\<open>vector+rerank\<close> as
  \<^verbatim>\<open>searchMethod\<close>. It does return whenever the reranker answers with indices inside the
  list.
\<close>

theorem reranked_results_fields:
  assumes "results \<noteq> []"
  shows "(\<forall>out. rerankVectorSearchResults svc client query results entityTexts topN = Inr out \<longrightarrow>
           (\<exists>rs. client \<lparr> rq_query = query,
                           rq_documents = map (doc_text \<circ> toRerankDocument entityTexts) results,
                           rq_model = co_model svc,
                           rq_topN = num_or topN (num_or (co_topN svc) (int (length results))) \<rparr>
                    = Inr (RerankResults rs)
                \<and> length out = length rs
                \<and> (\<forall>j < length rs.
                      fst (rs ! j) < length results
                      \<and> vsr_id (out ! j) = vsr_id (results ! fst (rs ! j))
                      \<and> vsr_similarity (out ! j) = snd (rs ! j)
                      \<and> vsr_metadata (out ! j) ''originalSimilarity''
                          = Some (JNum (vsr_similarity (results ! fst (rs ! j))))
                      \<and> vsr_metadata (out ! j) ''searchMethod'' = Some (JStr ''vector+rerank''))))
       \<and> (\<forall>rs. client \<lparr> rq_query = query,
                           rq_documents = map (doc_text \<circ> toRerankDocument entityTexts) results,
                           rq_model = co_model svc,
                           rq_topN = num_or topN (num_or (co_topN svc) (int (length results))) \<rparr>
                    = Inr (RerankResults rs)
                \<and> (\<forall>j < length rs. fst (rs ! j) < length results)
             \<longrightarrow> (\<exists>out. rerankVectorSearchResults svc client query results entityTexts topN
                          = Inr out))"
proof (intro conjI allI impI)
  fix out
  let ?docs = "map (toRerankDocument entityTexts) results"
  assume ret: "rerankVectorSearchResults svc client query results entityTexts topN = Inr out"
  then obtain rr where rr: "rerank svc client query ?docs topN = Inr rr"
    and out: "out = map fromRerankResult rr"
    using assms by (auto simp add: rerankVectorSearchResults_def split: sum.splits)
  from rerank_Inr [OF rr] assms obtain rs where
    cl: "client \<lparr> rq_query = query, rq_documents = map doc_text ?docs,
                  rq_model = co_model svc,
                  rq_topN = num_or topN (num_or (co_topN svc) (int (length ?docs))) \<rparr>
           = Inr (RerankResults rs)"
    and items: "rerank_items ?docs rs = Inr rr"
    by auto
  from rerank_items_Inr [OF items] have len: "length rr = length rs"
    and each: "\<And>j. j < length rs \<Longrightarrow> rerank_item ?docs (rs ! j) = Inr (rr ! j)"
    by auto
  show "\<exists>rs. client \<lparr> rq_query = query,
                           rq_documents = map (doc_text \<circ> toRerankDocument entityTexts) results,
                           rq_model = co_model svc,
                           rq_topN = num_or topN (num_or (co_topN svc) (int (length results))) \<rparr>
                    = Inr (RerankResults rs)
                \<and> length out = length rs
                \<and> (\<forall>j < length rs.
                      fst (rs ! j) < length results
                      \<and> vsr_id (out ! j) = vsr_id (results ! fst (rs ! j))
                      \<and> vsr_similarity (out ! j) = snd (rs ! j)
                      \<and> vsr_metadata (out ! j) ''originalSimilarity''
                          = Some (JNum (vsr_similarity (results ! fst (rs ! j))))
                      \<and> vsr_metadata (out ! j) ''searchMethod'' = Some (JStr ''vector+rerank''))"
  proof (intro exI [of _ rs] conjI allI impI)
    show "client \<lparr> rq_query = query,
                           rq_documents = map (doc_text \<circ> toRerankDocument entityTexts) results,
                           rq_model = co_model svc,
                           rq_topN = num_or topN (num_or (co_topN svc) (int (length results))) \<rparr>
                    = Inr (RerankResults rs)"
      using cl by simp
    show "length out = length rs"
      by (simp add: out len)
  next
    fix j assume j: "j < length rs"
    have "out ! j = fromRerankResult (rr ! j)"
      using j len by (simp add: out)
    with rerank_item_fields [OF each [OF j]]
    show "fst (rs ! j) < length results"
      and "vsr_id (out ! j) = vsr_id (results ! fst (rs ! j))"
      and "vsr_similarity (out ! j) = snd (rs ! j)"
      and "vsr_metadata (out ! j) ''originalSimilarity''
                          = Some (JNum (vsr_similarity (results ! fst (rs ! j))))"
      and "vsr_metadata (out ! j) ''searchMethod'' = Some (JStr ''vector+rerank'')"
      by simp_all
  qed
next
  fix rs
  let ?docs = "map (toRerankDocument entityTexts) results"
  assume a: "client \<lparr> rq_query = query,
                           rq_documents = map (doc_text \<circ> toRerankDocument entityTexts) results,
                           rq_model = co_model svc,
                           rq_topN = num_or topN (num_or (co_topN svc) (int (length results))) \<rparr>
                    = Inr (RerankResults rs)
                \<and> (\<forall>j < length rs. fst (rs ! j) < length results)"
  then have "\<forall>r \<in> set rs. fst r < length ?docs"
    by (metis in_set_conv_nth length_map)
  from rerank_items_total [OF this] obtain rr where "rerank_items ?docs rs = Inr rr" ..
  then show "\<exists>out. rerankVectorSearchResults svc client query results entityTexts topN = Inr out"
    using a assms by (simp add: rerankVectorSearchResults_def rerank_def Let_def)
qed

text \<open>
  Two results, which the reranker puts in the opposite order with scores 0.95 and 0.4.
\<close>

theorem reranked_results_fields_witness:
  "\<exists>out.
     rerankVectorSearchResults \<lparr> co_model = ''rerank-english-v3.0'', co_topN = None \<rparr>
       (\<lambda>request. Inr (RerankResults [(1, 19 / 20), (0, 2 / 5)])) ''a query''
       [\<lparr> vsr_id = ''a'', vsr_similarity = 9 / 10,
          vsr_metadata = [''searchMethod'' \<mapsto> JStr ''vector''] \<rparr>,
        \<lparr> vsr_id = ''b'', vsr_similarity = 4 / 5,
          vsr_metadata = [''searchMethod'' \<mapsto> JStr ''vector''] \<rparr>]
       [''a'' \<mapsto> ''text of a''] None = Inr out
     \<and> length out = 2
     \<and> vsr_id (out ! 0) = ''b''
     \<and> vsr_similarity (out ! 0) = 19 / 20
     \<and> vsr_metadata (out ! 0) ''originalSimilarity'' = Some (JNum (4 / 5))
     \<and> vsr_metadata (out ! 0) ''searchMethod'' = Some (JStr ''vector+rerank'')
     \<and> vsr_id (out ! 1) = ''a''
     \<and> vsr_similarity (out ! 1) = 2 / 5
     \<and> vsr_metadata (out ! 1) ''originalSimilarity'' = Some (JNum (9 / 10))
     \<and> vsr_metadata (out ! 1) ''searchMethod'' = Some (JStr ''vector+rerank'')"
proof -
  let ?svc = "\<lparr> co_model = ''rerank-english-v3.0'', co_topN = None \<rparr>"
  let ?rs = "[(1::nat, 19 / 20 :: rat), (0, 2 / 5)]"
  let ?client = "\<lambda>request :: RerankRequest. Inr (RerankResults ?rs) :: thrown + rerank_response"
  let ?results = "[\<lparr> vsr_id = ''a'', vsr_similarity = 9 / 10 :: rat,
          vsr_metadata = [''searchMethod'' \<mapsto> JStr ''vector''] \<rparr>,
        \<lparr> vsr_id = ''b'', vsr_similarity = 4 / 5,
          vsr_metadata = [''searchMethod'' \<mapsto> JStr ''vector''] \<rparr>]"
  let ?texts = "[''a'' \<mapsto> ''text of a'']"
  have ne: "?results \<noteq> []" by simp
  note fields = reranked_results_fields [OF ne, of ?svc ?client "''a query''" ?texts None]
  have range: "\<forall>j < length ?rs. fst (?rs ! j) < length ?results"
    by (simp add: nth_Cons split: nat.splits)
  from fields range obtain out where
    out: "rerankVectorSearchResults ?svc ?client ''a query'' ?results ?texts None = Inr out"
    by blast
  with fields obtain rs where rs: "Inr (RerankResults rs) = ?client undefined"
    and len: "length out = length rs"
    and each: "\<And>j. j < length rs \<Longrightarrow>
                      vsr_id (out ! j) = vsr_id (?results ! fst (rs ! j))
                      \<and> vsr_similarity (out ! j) = snd (rs ! j)
                      \<and> vsr_metadata (out ! j) ''originalSimilarity''
                          = Some (JNum (vsr_similarity (?results ! fst (rs ! j))))
                      \<and> vsr_metadata (out ! j) ''searchMethod'' = Some (JStr ''vector+rerank'')"
    by metis
  from rs have rs': "rs = ?rs" by simp
  from each [of 0] each [of 1] len out show ?thesis
    unfolding rs' by simp
qed

section \<open>Reindexing: the selection queries\<close>

lemma conditions_default:
  "\<not> onlyMissing options \<Longrightarrow> \<not> force options \<Longrightarrow>
     conditions options = conditions (options\<lparr> onlyMissing := True \<rparr>)"
  by (simp add: conditions_def)

lemma null_condition_iff:
  "(''e.embedding IS NULL'' \<in> set (conditions options)) = (onlyMissing options \<or> \<not> force options)"
  by (simp add: conditions_def str_truthy_def split: option.splits list.splits)

lemma str_includes_sublist: "str_includes s p = sublist p s"
  by (induction s) (simp_all add: sublist_Cons_right)

lemma sublist_behind: "sublist c t \<Longrightarrow> sublist c (a @ t)"
  by (simp add: sublist_append)

lemma join_member_sublist: "c \<in> set cs \<Longrightarrow> sublist c (join sep cs)"
proof (induction sep cs rule: join.induct)
  case (1 sep)
  then show ?case by simp
next
  case (2 sep x)
  then show ?case by simp
next
  case (3 sep x y ys)
  show ?case
  proof (cases "c = x")
    case True
    then show ?thesis by (simp add: sublist_append_rightI)
  next
    case False
    with 3 have "sublist c (join sep (y # ys))" by simp
    then show ?thesis by (simp add: sublist_append)
  qed
qed

lemma whereClause_includes:
  "c \<in> set (conditions options) \<Longrightarrow> str_includes (whereClause options) c"
proof -
  assume c: "c \<in> set (conditions options)"
  then have "conditions options \<noteq> []" by auto
  moreover from c have "sublist c (''WHERE '' @ join '' AND '' (conditions options))"
    by (intro sublist_behind join_member_sublist)
  ultimately show ?thesis
    by (simp add: whereClause_def str_includes_sublist)
qed

lemma whereClause_no_null:
  "force options \<Longrightarrow> \<not> onlyMissing options \<Longrightarrow>
     \<not> str_includes (whereClause options) ''e.embedding IS NULL''"
  by (simp add: whereClause_def conditions_def str_truthy_def split: option.splits list.splits)

text \<open>
  C9. For options without a custom query: when \<^verbatim>\<open>onlyMissing\<close> and \<^verbatim>\<open>force\<close> are both
  false, the selection query and the count query are the very queries built for
  \<^verbatim>\<open>onlyMissing = true\<close>, and their \<^verbatim>\<open>WHERE\<close> clause contains
  \<^verbatim>\<open>e.embedding IS NULL\<close>; in general that condition is left out exactly when \<^verbatim>\<open>force\<close>
  is true and \<^verbatim>\<open>onlyMissing\<close> is false, so forcing is the only way to select entities
  that have an embedding. Both queries are the fixed template around that clause.
\<close>

theorem default_selection_is_only_missing:
  assumes "\<not> str_truthy (customQuery options)"
  shows "(\<not> onlyMissing options \<and> \<not> force options \<longrightarrow>
            selectionQuery options = selectionQuery (options\<lparr> onlyMissing := True \<rparr>)
            \<and> countQuery options = countQuery (options\<lparr> onlyMissing := True \<rparr>)
            \<and> ''e.embedding IS NULL'' \<in> set (conditions options)
            \<and> str_includes (whereClause options) ''e.embedding IS NULL'')
       \<and> ((''e.embedding IS NULL'' \<in> set (conditions options))
             = (onlyMissing options \<or> \<not> force options))
       \<and> (str_includes (whereClause options) ''e.embedding IS NULL''
             = (onlyMissing options \<or> \<not> force options))
       \<and> fst (selectionQuery options)
            = br 10 @ ''MATCH (e:Entity)''
              @ br 10 @ whereClause options
              @ br 10 @ ''RETURN e.name as name, e.entityType as type, e.observations as observations''
              @ br 10 @ ''ORDER BY e.createdAt DESC''
              @ br 10 @ limitClause options
              @ br 8
       \<and> fst (countQuery options)
            = br 10 @ ''MATCH (e:Entity)''
              @ br 10 @ whereClause options
              @ br 10 @ ''RETURN count(e) as count''
              @ br 8"
proof -
  have same: "selectionQuery options = selectionQuery (options\<lparr> onlyMissing := True \<rparr>)
            \<and> countQuery options = countQuery (options\<lparr> onlyMissing := True \<rparr>)"
    if "\<not> onlyMissing options" "\<not> force options"
    using conditions_default [OF that] assms
    by (simp add: selectionQuery_def countQuery_def whereClause_def limitClause_def
          filterParams_def)
  have incl: "str_includes (whereClause options) ''e.embedding IS NULL''
             = (onlyMissing options \<or> \<not> force options)"
    using whereClause_includes [of "''e.embedding IS NULL''" options]
      whereClause_no_null [of options] null_condition_iff [of options]
    by blast
  have q1: "fst (selectionQuery options)
            = br 10 @ ''MATCH (e:Entity)''
              @ br 10 @ whereClause options
              @ br 10 @ ''RETURN e.name as name, e.entityType as type, e.observations as observations''
              @ br 10 @ ''ORDER BY e.createdAt DESC''
              @ br 10 @ limitClause options
              @ br 8"
    using assms by (simp add: selectionQuery_def)
  have q2: "fst (countQuery options)
            = br 10 @ ''MATCH (e:Entity)''
              @ br 10 @ whereClause options
              @ br 10 @ ''RETURN count(e) as count''
              @ br 8"
    using assms by (simp add: countQuery_def)
  show ?thesis
    using same incl null_condition_iff [of options] q1 q2 by blast
qed

text \<open>The default options, and the same options with \<^verbatim>\<open>force\<close>.\<close>

theorem default_selection_is_only_missing_witness:
  "whereClause \<lparr> batchSize = None, entityTypes = None, namePattern = None,
       onlyMissing = False, force = False, dryRun = False, limit = None, onProgress = False,
       batchDelay = None, customQuery = None, customQueryParams = None \<rparr>
     = ''WHERE e.validTo = 9223372036854775807 AND e.embedding IS NULL''
   \<and> selectionQuery \<lparr> batchSize = None, entityTypes = None, namePattern = None,
       onlyMissing = False, force = False, dryRun = False, limit = None, onProgress = False,
       batchDelay = None, customQuery = None, customQueryParams = None \<rparr>
     = selectionQuery \<lparr> batchSize = None, entityTypes = None, namePattern = None,
       onlyMissing = True, force = False, dryRun = False, limit = None, onProgress = False,
       batchDelay = None, customQuery = None, customQueryParams = None \<rparr>
   \<and> countQuery \<lparr> batchSize = None, entityTypes = None, namePattern = None,
       onlyMissing = False, force = False, dryRun = False, limit = None, onProgress = False,
       batchDelay = None, customQuery = None, customQueryParams = None \<rparr>
     = countQuery \<lparr> batchSize = None, entityTypes = None, namePattern = None,
       onlyMissing = True, force = False, dryRun = False, limit = None, onProgress = False,
       batchDelay = None, customQuery = None, customQueryParams = None \<rparr>
   \<and> str_includes
       (whereClause \<lparr> batchSize = None, entityTypes = None, namePattern = None,
          onlyMissing = False, force = False, dryRun = False, limit = None, onProgress = False,
          batchDelay = None, customQuery = None, customQueryParams = None \<rparr>)
       ''e.embedding IS NULL''
   \<and> \<not> str_includes
       (whereClause \<lparr> batchSize = None, entityTypes = None, namePattern = None,
          onlyMissing = False, force = True, dryRun = False, limit = None, onProgress = False,
          batchDelay = None, customQuery = None, customQueryParams = None \<rparr>)
       ''e.embedding IS NULL''"
proof -
  let ?d = "\<lparr> batchSize = None, entityTypes = None, namePattern = None,
       onlyMissing = False, force = False, dryRun = False, limit = None, onProgress = False,
       batchDelay = None, customQuery = None, customQueryParams = None \<rparr>"
  let ?f = "\<lparr> batchSize = None, entityTypes = None, namePattern = None,
       onlyMissing = False, force = True, dryRun = False, limit = None, onProgress = False,
       batchDelay = None, customQuery = None, customQueryParams = None \<rparr>"
  have 1: "\<not> str_truthy (customQuery ?d)" by (simp add: str_truthy_def)
  have 2: "\<not> str_truthy (customQuery ?f)" by (simp add: str_truthy_def)
  have 3: "whereClause ?d = ''WHERE e.validTo = 9223372036854775807 AND e.embedding IS NULL''"
    by (simp add: whereClause_def conditions_def str_truthy_def)
  show ?thesis
    using default_selection_is_only_missing [OF 1] default_selection_is_only_missing [OF 2] 3
    by simp
qed

section \<open>Reindexing: the dry run\<close>

text \<open>
  C5. With \<^verbatim>\<open>dryRun\<close> set, whatever the other options, the service and the store are:
  when the selection query answers with a list of entities, \<^verbatim>\<open>reindexEmbeddings\<close>
  returns \<^verbatim>\<open>total\<close> = the number of selected entities, zero for \<^verbatim>\<open>processed\<close>,
  \<^verbatim>\<open>succeeded\<close>, \<^verbatim>\<open>failed\<close> and \<^verbatim>\<open>skipped\<close>, and no errors; the run generates no
  embedding, writes nothing and does not sleep.
\<close>

theorem dry_run_does_nothing:
  assumes "dryRun options"
    and "getEntitiesToReindex db options = Inr entities"
  shows "reindexEmbeddings db svc store options
           = Some (Inr (\<lparr> res_total = length entities, res_processed = 0, res_succeeded = 0,
                           res_failed = 0, res_skipped = 0, res_errors = [] \<rparr>, []))"
  using assms
  by (simp add: reindexEmbeddings_def Let_def resultOf_def initialState_def)

text \<open>A dry run over two selected entities.\<close>

theorem dry_run_does_nothing_witness:
  "reindexEmbeddings
     (\<lambda>q. Inr [\<lparr> raw_name = ''a'', raw_type = ''note'', raw_observations = Some [''first''] \<rparr>,
                \<lparr> raw_name = ''b'', raw_type = ''note'', raw_observations = None \<rparr>])
     \<lparr> generateEmbedding = (\<lambda>t. Inr [1 / 2, 1 / 3]),
       modelInfo = \<lparr> info_name = ''m'', info_dimensions = Dim 2, info_version = ''1'' \<rparr> \<rparr>
     (\<lambda>n e. None)
     \<lparr> batchSize = None, entityTypes = None, namePattern = None,
       onlyMissing = False, force = False, dryRun = True, limit = None, onProgress = False,
       batchDelay = None, customQuery = None, customQueryParams = None \<rparr>
   = Some (Inr (\<lparr> res_total = 2, res_processed = 0, res_succeeded = 0,
                   res_failed = 0, res_skipped = 0, res_errors = [] \<rparr>, []))"
proof -
  let ?db = "\<lambda>q :: string \<times> query_params.
     Inr [\<lparr> raw_name = ''a'', raw_type = ''note'', raw_observations = Some [''first''] \<rparr>,
          \<lparr> raw_name = ''b'', raw_type = ''note'', raw_observations = None \<rparr>]
       :: thrown + RawRecord list"
  let ?o = "\<lparr> batchSize = None, entityTypes = None, namePattern = None,
       onlyMissing = False, force = False, dryRun = True, limit = None, onProgress = False,
       batchDelay = None, customQuery = None, customQueryParams = None \<rparr>"
  have 1: "dryRun ?o" by simp
  have 2: "getEntitiesToReindex ?db ?o
             = Inr [\<lparr> ent_name = ''a'', ent_type = ''note'', ent_observations = [''first''] \<rparr>,
                    \<lparr> ent_name = ''b'', ent_type = ''note'', ent_observations = [] \<rparr>]"
    by (simp add: getEntitiesToReindex_def toEntityBatch_def)
  show ?thesis
    using dry_run_does_nothing [OF 1 2] by simp
qed

section \<open>Reciprocal rank fusion\<close>































section \<open>Reindexing: the batch loop\<close>

lemma generated_append: "generated (xs @ ys) = generated xs @ generated ys"
  by (induction xs rule: generated.induct) simp_all

lemma tryReindex_counters:
  "st_processed (tryReindex svc store e st) = st_processed st
   \<and> st_skipped (tryReindex svc store e st) = st_skipped st
   \<and> st_succeeded (tryReindex svc store e st)
       = st_succeeded st + (if reindexFailure svc store e = None then 1 else 0)
   \<and> st_failed (tryReindex svc store e st)
       = st_failed st + (if reindexFailure svc store e = None then 0 else 1)
   \<and> st_errors (tryReindex svc store e st) = st_errors st @ failureEntry svc store e"
  by (simp add: tryReindex_def Let_def emit_def recordFailure_def reindexFailure_def
        failureEntry_def split: sum.splits option.splits)

lemma tryReindex_events:
  "\<exists>evs. st_events (tryReindex svc store e st) = st_events st @ evs
         \<and> generated evs = [generateEmbeddingText e]
         \<and> \<not> list_ex is_sleep evs"
  by (simp add: tryReindex_def Let_def emit_def recordFailure_def
        split: sum.splits option.splits)

lemma processEntity_counters:
  "st_processed (processEntity svc store options n cb tb st e) = st_processed st + 1
   \<and> st_skipped (processEntity svc store options n cb tb st e) = st_skipped st
   \<and> st_succeeded (processEntity svc store options n cb tb st e)
       = st_succeeded st + (if reindexFailure svc store e = None then 1 else 0)
   \<and> st_failed (processEntity svc store options n cb tb st e)
       = st_failed st + (if reindexFailure svc store e = None then 0 else 1)
   \<and> st_errors (processEntity svc store options n cb tb st e)
       = st_errors st @ failureEntry svc store e"
  using tryReindex_counters [of svc store e st]
  by (simp add: processEntity_def Let_def emit_def)

lemma processEntity_events:
  "\<exists>evs. st_events (processEntity svc store options n cb tb st e) = st_events st @ evs
         \<and> generated evs = [generateEmbeddingText e]
         \<and> \<not> list_ex is_sleep evs"
proof -
  obtain evs where evs: "st_events (tryReindex svc store e st) = st_events st @ evs"
    "generated evs = [generateEmbeddingText e]" "\<not> list_ex is_sleep evs"
    using tryReindex_events by blast
  show ?thesis
  proof (cases "onProgress options")
    case True
    let ?p = "EvProgress (progressOf n cb tb
                ((tryReindex svc store e st)\<lparr> st_processed := st_processed (tryReindex svc store e st) + 1 \<rparr>))"
    have "st_events (processEntity svc store options n cb tb st e) = st_events st @ (evs @ [?p])"
      using True evs(1) by (simp add: processEntity_def Let_def emit_def)
    moreover have "generated (evs @ [?p]) = [generateEmbeddingText e]"
      using evs(2) by (simp add: generated_append)
    moreover have "\<not> list_ex is_sleep (evs @ [?p])"
      using evs(3) by simp
    ultimately show ?thesis by blast
  next
    case False
    then have "st_events (processEntity svc store options n cb tb st e) = st_events st @ evs"
      using evs(1) by (simp add: processEntity_def Let_def)
    with evs(2,3) show ?thesis by blast
  qed
qed

lemma batch_counters:
  "st_processed (foldl (processEntity svc store options n cb tb) st xs)
       = st_processed st + length xs
   \<and> st_skipped (foldl (processEntity svc store options n cb tb) st xs) = st_skipped st
   \<and> st_succeeded (foldl (processEntity svc store options n cb tb) st xs)
       = st_succeeded st + length (filter (\<lambda>e. reindexFailure svc store e = None) xs)
   \<and> st_failed (foldl (processEntity svc store options n cb tb) st xs)
       = st_failed st + length (filter (\<lambda>e. reindexFailure svc store e \<noteq> None) xs)
   \<and> st_errors (foldl (processEntity svc store options n cb tb) st xs)
       = st_errors st @ concat (map (failureEntry svc store) xs)"
proof (induction xs arbitrary: st)
  case Nil
  then show ?case by simp
next
  case (Cons x xs)
  show ?case
    using Cons.IH [of "processEntity svc store options n cb tb st x"]
      processEntity_counters [of svc store options n cb tb st x]
    by simp
qed

lemma batch_events:
  "\<exists>evs. st_events (foldl (processEntity svc store options n cb tb) st xs) = st_events st @ evs
         \<and> generated evs = map generateEmbeddingText xs
         \<and> \<not> list_ex is_sleep evs"
proof (induction xs arbitrary: st)
  case Nil
  then show ?case by simp
next
  case (Cons x xs)
  let ?st = "processEntity svc store options n cb tb st x"
  obtain e1 where e1: "st_events ?st = st_events st @ e1"
    "generated e1 = [generateEmbeddingText x]" "\<not> list_ex is_sleep e1"
    using processEntity_events by blast
  obtain e2 where e2: "st_events (foldl (processEntity svc store options n cb tb) ?st xs)
      = st_events ?st @ e2"
    "generated e2 = map generateEmbeddingText xs" "\<not> list_ex is_sleep e2"
    using Cons.IH [of ?st] by blast
  have "st_events (foldl (processEntity svc store options n cb tb) st (x # xs))
          = st_events st @ (e1 @ e2)"
    using e1(1) e2(1) by simp
  moreover have "generated (e1 @ e2) = map generateEmbeddingText (x # xs)"
    using e1(2) e2(2) by (simp add: generated_append)
  moreover have "\<not> list_ex is_sleep (e1 @ e2)"
    using e1(3) e2(3) by simp
  ultimately show ?case by blast
qed

lemma js_slice_batch:
  "0 \<le> i \<Longrightarrow> 0 < bs \<Longrightarrow> js_slice xs i (i + bs) = take (nat bs) (drop (nat i) xs)"
proof -
  assume i: "0 \<le> i" and bs: "0 < bs"
  show ?thesis
  proof (cases "i \<le> int (length xs)")
    case True
    show ?thesis
    proof (cases "i + bs \<le> int (length xs)")
      case True
      with i bs \<open>i \<le> int (length xs)\<close> show ?thesis
        by (simp add: js_slice_def Let_def min_def)
    next
      case False
      with i bs \<open>i \<le> int (length xs)\<close> show ?thesis
        by (simp add: js_slice_def Let_def min_def)
    qed
  next
    case False
    with i bs show ?thesis
      by (simp add: js_slice_def Let_def min_def)
  qed
qed

lemma batchLoop_done:
  "\<not> i < int (length entities) \<Longrightarrow> batchLoop svc store options entities bs delay i st = Some st"
  by (subst batchLoop.simps) simp

lemma batchLoop_step:
  "i < int (length entities) \<Longrightarrow>
     batchLoop svc store options entities bs delay i st
       = batchLoop svc store options entities bs delay (i + bs)
           (processBatch svc store options entities bs delay i st)"
  by (subst batchLoop.simps) simp

lemma processBatch_counters:
  assumes "0 \<le> i" and "0 < bs"
  shows "st_processed (processBatch svc store options entities bs delay i st)
       = st_processed st + length (take (nat bs) (drop (nat i) entities))
   \<and> st_skipped (processBatch svc store options entities bs delay i st) = st_skipped st
   \<and> st_succeeded (processBatch svc store options entities bs delay i st)
       = st_succeeded st
         + length (filter (\<lambda>e. reindexFailure svc store e = None)
                     (take (nat bs) (drop (nat i) entities)))
   \<and> st_failed (processBatch svc store options entities bs delay i st)
       = st_failed st
         + length (filter (\<lambda>e. reindexFailure svc store e \<noteq> None)
                     (take (nat bs) (drop (nat i) entities)))
   \<and> st_errors (processBatch svc store options entities bs delay i st)
       = st_errors st @ concat (map (failureEntry svc store)
                                  (take (nat bs) (drop (nat i) entities)))"
  using batch_counters [of svc store options "length entities" "currentBatchOf i bs"
      "totalBatchesOf (length entities) bs" st "take (nat bs) (drop (nat i) entities)"]
  by (simp add: processBatch_def Let_def js_slice_batch [OF assms] emit_def)

lemma processBatch_events:
  assumes "0 \<le> i" and "0 < bs"
  shows "\<exists>t. st_events (processBatch svc store options entities bs delay i st)
              = st_events st @ t
                @ (if i + bs < int (length entities) \<and> 0 < delay then [EvSleep delay] else [])
         \<and> generated t = map generateEmbeddingText (take (nat bs) (drop (nat i) entities))
         \<and> \<not> list_ex is_sleep t"
  using batch_events [of svc store options "length entities" "currentBatchOf i bs"
      "totalBatchesOf (length entities) bs" st "take (nat bs) (drop (nat i) entities)"]
  by (auto simp add: processBatch_def Let_def js_slice_batch [OF assms] emit_def)

lemma count_take_drop:
  "length (filter P (take n xs)) + length (filter P (drop n xs)) = length (filter P xs)"
  by (metis append_take_drop_id filter_append length_append)

lemma concat_map_take_drop:
  "concat (map f (take n xs)) @ concat (map f (drop n xs)) = concat (map f xs)"
  by (metis append_take_drop_id concat_append map_append)

lemma length_take_drop: "length (take n xs) + length (drop n xs) = length xs"
  by (metis append_take_drop_id length_append)

lemma batchLoop_counters:
  assumes "0 < bs" and "0 \<le> i"
  shows "\<exists>st'. batchLoop svc store options entities bs delay i st = Some st'
     \<and> st_processed st' = st_processed st + length (drop (nat i) entities)
     \<and> st_skipped st' = st_skipped st
     \<and> st_succeeded st'
         = st_succeeded st
           + length (filter (\<lambda>e. reindexFailure svc store e = None) (drop (nat i) entities))
     \<and> st_failed st'
         = st_failed st
           + length (filter (\<lambda>e. reindexFailure svc store e \<noteq> None) (drop (nat i) entities))
     \<and> st_errors st'
         = st_errors st @ concat (map (failureEntry svc store) (drop (nat i) entities))"
  using assms(2)
proof (induction "length entities - nat i" arbitrary: i st rule: less_induct)
  case less
  show ?case
  proof (cases "i < int (length entities)")
    case False
    then have "drop (nat i) entities = []" by simp
    then show ?thesis
      using batchLoop_done [OF False] by simp
  next
    case True
    let ?st = "processBatch svc store options entities bs delay i st"
    let ?rest = "drop (nat i) entities"
    have smaller: "length entities - nat (i + bs) < length entities - nat i"
      using True less.prems assms(1) by linarith
    have nonneg: "0 \<le> i + bs"
      using less.prems assms(1) by simp
    have rest: "drop (nat (i + bs)) entities = drop (nat bs) ?rest"
      using less.prems assms(1) by (simp add: nat_add_distrib add.commute)
    obtain st' where st': "batchLoop svc store options entities bs delay (i + bs) ?st = Some st'"
      and p: "st_processed st' = st_processed ?st + length (drop (nat bs) ?rest)"
      and k: "st_skipped st' = st_skipped ?st"
      and s: "st_succeeded st' = st_succeeded ?st
           + length (filter (\<lambda>e. reindexFailure svc store e = None) (drop (nat bs) ?rest))"
      and f: "st_failed st' = st_failed ?st
           + length (filter (\<lambda>e. reindexFailure svc store e \<noteq> None) (drop (nat bs) ?rest))"
      and e: "st_errors st' = st_errors ?st
           @ concat (map (failureEntry svc store) (drop (nat bs) ?rest))"
      using less.hyps [OF smaller nonneg, of ?st] unfolding rest by blast
    note b = processBatch_counters [OF less.prems assms(1), of svc store options entities delay st]
    have "st_processed st' = st_processed st + length ?rest"
      using p b length_take_drop [of "nat bs" ?rest]
      by (simp del: drop_drop length_take length_drop)
    moreover have "st_skipped st' = st_skipped st"
      using k b by simp
    moreover have "st_succeeded st' = st_succeeded st
           + length (filter (\<lambda>e. reindexFailure svc store e = None) ?rest)"
      using s b count_take_drop [of "\<lambda>e. reindexFailure svc store e = None" "nat bs" ?rest]
      by (simp del: drop_drop)
    moreover have "st_failed st' = st_failed st
           + length (filter (\<lambda>e. reindexFailure svc store e \<noteq> None) ?rest)"
      using f b count_take_drop [of "\<lambda>e. reindexFailure svc store e \<noteq> None" "nat bs" ?rest]
      by (simp del: drop_drop)
    moreover have "st_errors st' = st_errors st @ concat (map (failureEntry svc store) ?rest)"
      using e b concat_map_take_drop [of "failureEntry svc store" "nat bs" ?rest]
      by (simp del: drop_drop)
    ultimately show ?thesis
      using st' batchLoop_step [OF True, of svc store options bs delay st] by simp
  qed
qed

lemma chunks_nonempty:
  "0 < b \<Longrightarrow> xs \<noteq> [] \<Longrightarrow> chunks b xs = take b xs # chunks b (drop b xs)"
  by (subst chunks.simps) simp

lemma chunks_Nil: "chunks b [] = []"
  by (subst chunks.simps) simp

lemma batchLoop_events:
  assumes "0 < bs" and "0 \<le> i" and "i < int (length entities)"
  shows "\<exists>st' traces. batchLoop svc store options entities bs delay i st = Some st'
     \<and> st_events st'
         = st_events st @ join (if 0 < delay then [EvSleep delay] else []) traces
     \<and> map generated traces
         = chunks (nat bs) (map generateEmbeddingText (drop (nat i) entities))
     \<and> (\<forall>t \<in> set traces. \<not> list_ex is_sleep t)"
  using assms(2,3)
proof (induction "length entities - nat i" arbitrary: i st rule: less_induct)
  case less
  let ?sep = "if 0 < delay then [EvSleep delay] else []"
  let ?st = "processBatch svc store options entities bs delay i st"
  let ?rest = "drop (nat i) entities"
  let ?texts = "map generateEmbeddingText ?rest"
  have b: "0 < nat bs" using assms(1) by simp
  have restne: "?texts \<noteq> []" using less.prems by simp
  have ch: "chunks (nat bs) ?texts = take (nat bs) ?texts # chunks (nat bs) (drop (nat bs) ?texts)"
    by (rule chunks_nonempty [OF b restne])
  have rest: "drop (nat (i + bs)) entities = drop (nat bs) ?rest"
    using less.prems assms(1) by (simp add: nat_add_distrib add.commute)
  obtain t where t: "st_events ?st = st_events st @ t
                @ (if i + bs < int (length entities) \<and> 0 < delay then [EvSleep delay] else [])"
    and gt: "generated t = map generateEmbeddingText (take (nat bs) ?rest)"
    and nt: "\<not> list_ex is_sleep t"
    using processBatch_events [OF less.prems(1) assms(1)] by blast
  have step: "batchLoop svc store options entities bs delay i st
       = batchLoop svc store options entities bs delay (i + bs) ?st"
    by (rule batchLoop_step [OF less.prems(2)])
  show ?case
  proof (cases "i + bs < int (length entities)")
    case False
    then have fin: "batchLoop svc store options entities bs delay (i + bs) ?st = Some ?st"
      by (rule batchLoop_done)
    have "drop (nat bs) ?texts = []"
      using False less.prems assms(1) by simp
    then have "map generated [t] = chunks (nat bs) ?texts"
      using ch gt by (simp add: chunks_Nil take_map)
    moreover have "st_events ?st = st_events st @ join ?sep [t]"
      using t False by simp
    moreover have "\<forall>u \<in> set [t]. \<not> list_ex is_sleep u"
      using nt by simp
    ultimately show ?thesis
      using step fin by metis
  next
    case True
    have smaller: "length entities - nat (i + bs) < length entities - nat i"
      using less.prems assms(1) by linarith
    have nonneg: "0 \<le> i + bs"
      using less.prems assms(1) by simp
    obtain st' traces where
      st': "batchLoop svc store options entities bs delay (i + bs) ?st = Some st'"
      and ev: "st_events st' = st_events ?st @ join ?sep traces"
      and gen: "map generated traces
                  = chunks (nat bs) (map generateEmbeddingText (drop (nat bs) ?rest))"
      and ns: "\<forall>u \<in> set traces. \<not> list_ex is_sleep u"
      using less.hyps [OF smaller nonneg True, of ?st] unfolding rest by blast
    have "drop (nat bs) ?rest \<noteq> []"
      using True less.prems assms(1) by simp
    then have "chunks (nat bs) (map generateEmbeddingText (drop (nat bs) ?rest)) \<noteq> []"
      using chunks_nonempty [OF b, of "map generateEmbeddingText (drop (nat bs) ?rest)"] by simp
    with gen obtain c cs where traces: "traces = c # cs"
      by (cases traces) auto
    have "st_events st' = st_events st @ join ?sep (t # traces)"
      using ev t True by (simp add: traces)
    moreover have "map generated (t # traces) = chunks (nat bs) ?texts"
      using ch gt gen by (simp add: take_map drop_map)
    moreover have "\<forall>u \<in> set (t # traces). \<not> list_ex is_sleep u"
      using nt ns by simp
    ultimately show ?thesis
      using step st' by metis
  qed
qed

lemma generated_join:
  "generated sep = [] \<Longrightarrow> generated (join sep traces) = concat (map generated traces)"
  by (induction sep traces rule: join.induct) (simp_all add: generated_append)

lemma concat_chunks: "0 < b \<Longrightarrow> concat (chunks b xs) = xs"
proof (induction b xs rule: chunks.induct)
  case (1 b xs)
  show ?case
  proof (cases "xs = []")
    case True
    then show ?thesis by (simp add: chunks_Nil)
  next
    case False
    with 1 show ?thesis by (simp add: chunks_nonempty)
  qed
qed

lemma reindexEmbeddings_run:
  assumes "getEntitiesToReindex db options = Inr entities"
    and "\<not> dryRun options"
    and "0 < num_or (batchSize options) 10"
  shows "\<exists>st traces.
     reindexEmbeddings db svc store options = Some (Inr (resultOf (length entities) st, st_events st))
     \<and> st_processed st = length entities
     \<and> st_skipped st = 0
     \<and> st_succeeded st = length (filter (\<lambda>e. reindexFailure svc store e = None) entities)
     \<and> st_failed st = length (filter (\<lambda>e. reindexFailure svc store e \<noteq> None) entities)
     \<and> st_errors st = concat (map (failureEntry svc store) entities)
     \<and> st_events st
         = join (if 0 < num_or (batchDelay options) 1000
                 then [EvSleep (num_or (batchDelay options) 1000)] else []) traces
     \<and> map generated traces
         = chunks (nat (num_or (batchSize options) 10)) (map generateEmbeddingText entities)
     \<and> (\<forall>t \<in> set traces. \<not> list_ex is_sleep t)"
proof (cases "entities = []")
  case True
  have "reindexEmbeddings db svc store options
          = Some (Inr (resultOf (length entities) initialState, st_events initialState))"
    using assms(1) True by (simp add: reindexEmbeddings_def Let_def initialState_def)
  moreover have "st_events initialState
         = join (if 0 < num_or (batchDelay options) 1000
                 then [EvSleep (num_or (batchDelay options) 1000)] else []) []"
    by (simp add: initialState_def)
  moreover have "map generated []
         = chunks (nat (num_or (batchSize options) 10)) (map generateEmbeddingText entities)"
    using True by (simp add: chunks_Nil)
  ultimately show ?thesis
    using True by (intro exI [of _ initialState] exI [of _ "[]"]) (simp add: initialState_def)
next
  case False
  let ?bs = "num_or (batchSize options) 10"
  let ?delay = "num_or (batchDelay options) 1000"
  have pos: "(0::int) < int (length entities)" using False by simp
  obtain st where run: "batchLoop svc store options entities ?bs ?delay 0 initialState = Some st"
    and c: "st_processed st = st_processed initialState + length (drop (nat 0) entities)"
      "st_skipped st = st_skipped initialState"
      "st_succeeded st = st_succeeded initialState
         + length (filter (\<lambda>e. reindexFailure svc store e = None) (drop (nat 0) entities))"
      "st_failed st = st_failed initialState
         + length (filter (\<lambda>e. reindexFailure svc store e \<noteq> None) (drop (nat 0) entities))"
      "st_errors st = st_errors initialState
         @ concat (map (failureEntry svc store) (drop (nat 0) entities))"
    using batchLoop_counters [OF assms(3), of 0 svc store options entities ?delay initialState]
    by auto
  obtain st' traces where run': "batchLoop svc store options entities ?bs ?delay 0 initialState = Some st'"
    and ev: "st_events st' = st_events initialState
               @ join (if 0 < ?delay then [EvSleep ?delay] else []) traces"
    and gen: "map generated traces
               = chunks (nat ?bs) (map generateEmbeddingText (drop (nat 0) entities))"
    and ns: "\<forall>t \<in> set traces. \<not> list_ex is_sleep t"
    using batchLoop_events [OF assms(3) _ pos, of svc store options ?delay initialState]
    by auto
  have same: "st' = st" using run run' by simp
  have "reindexEmbeddings db svc store options
          = Some (Inr (resultOf (length entities) st, st_events st))"
    using assms(1,2) False run by (simp add: reindexEmbeddings_def Let_def)
  then show ?thesis
    using c ev gen ns unfolding same
    by (intro exI [of _ st] exI [of _ traces]) (simp add: initialState_def)
qed

text \<open>
  C2, amended. For a run that is not a dry run, with a positive batch size, over the
  entities the selection query returned: the run ends; every entity is processed, in
  order, whatever happened to the ones before it; \<^verbatim>\<open>succeeded\<close> counts the entities
  whose generation and storage both went through and \<^verbatim>\<open>failed\<close> the others; and
  \<^verbatim>\<open>errors\<close> holds, in order, one entry per failed entity with its name and the message
  of the thrown error (its \<^verbatim>\<open>String\<close> rendering when it is not an \<^verbatim>\<open>Error\<close>), whatever
  that message is. One failing entity adds one to \<^verbatim>\<open>failed\<close>, one entry to \<^verbatim>\<open>errors\<close>
  and one to \<^verbatim>\<open>processed\<close>, and leaves \<^verbatim>\<open>succeeded\<close> as it is.
\<close>

theorem failures_are_isolated:
  assumes "getEntitiesToReindex db options = Inr entities"
    and "\<not> dryRun options"
    and "0 < num_or (batchSize options) 10"
  shows "(\<exists>evs. reindexEmbeddings db svc store options
            = Some (Inr (\<lparr> res_total = length entities,
                            res_processed = length entities,
                            res_succeeded =
                              length (filter (\<lambda>e. reindexFailure svc store e = None) entities),
                            res_failed =
                              length (filter (\<lambda>e. reindexFailure svc store e \<noteq> None) entities),
                            res_skipped = 0,
                            res_errors = concat (map (failureEntry svc store) entities) \<rparr>, evs))
          \<and> generated evs = map generateEmbeddingText entities)
    \<and> (\<forall>e t st n cb tb. reindexFailure svc store e = Some t \<longrightarrow>
          st_failed (processEntity svc store options n cb tb st e) = st_failed st + 1
          \<and> st_errors (processEntity svc store options n cb tb st e)
              = st_errors st @ [(ent_name e, getErrorMessage t)]
          \<and> st_succeeded (processEntity svc store options n cb tb st e) = st_succeeded st
          \<and> st_processed (processEntity svc store options n cb tb st e) = st_processed st + 1)"
proof (intro conjI allI impI)
  obtain st traces where
    run: "reindexEmbeddings db svc store options
            = Some (Inr (resultOf (length entities) st, st_events st))"
    and c: "st_processed st = length entities" "st_skipped st = 0"
      "st_succeeded st = length (filter (\<lambda>e. reindexFailure svc store e = None) entities)"
      "st_failed st = length (filter (\<lambda>e. reindexFailure svc store e \<noteq> None) entities)"
      "st_errors st = concat (map (failureEntry svc store) entities)"
    and ev: "st_events st
         = join (if 0 < num_or (batchDelay options) 1000
                 then [EvSleep (num_or (batchDelay options) 1000)] else []) traces"
    and gen: "map generated traces
         = chunks (nat (num_or (batchSize options) 10)) (map generateEmbeddingText entities)"
    using reindexEmbeddings_run [OF assms, of svc store] by blast
  have "generated (st_events st) = concat (map generated traces)"
    unfolding ev by (rule generated_join) simp
  also have "\<dots> = map generateEmbeddingText entities"
    unfolding gen using assms(3) by (simp add: concat_chunks)
  finally have g: "generated (st_events st) = map generateEmbeddingText entities" .
  show "\<exists>evs. reindexEmbeddings db svc store options
            = Some (Inr (\<lparr> res_total = length entities,
                            res_processed = length entities,
                            res_succeeded =
                              length (filter (\<lambda>e. reindexFailure svc store e = None) entities),
                            res_failed =
                              length (filter (\<lambda>e. reindexFailure svc store e \<noteq> None) entities),
                            res_skipped = 0,
                            res_errors = concat (map (failureEntry svc store) entities) \<rparr>, evs))
          \<and> generated evs = map generateEmbeddingText entities"
    using run c g by (intro exI [of _ "st_events st"]) (simp add: resultOf_def)
next
  fix e t st n cb tb
  assume f: "reindexFailure svc store e = Some t"
  note pc = processEntity_counters [of svc store options n cb tb st e]
  show "st_failed (processEntity svc store options n cb tb st e) = st_failed st + 1"
    using pc f by simp
  show "st_errors (processEntity svc store options n cb tb st e)
              = st_errors st @ [(ent_name e, getErrorMessage t)]"
    using pc f by (simp add: failureEntry_def)
  show "st_succeeded (processEntity svc store options n cb tb st e) = st_succeeded st"
    using pc f by simp
  show "st_processed (processEntity svc store options n cb tb st e) = st_processed st + 1"
    using pc by simp
qed

text \<open>
  Ten entities, the default options, and a provider that fails for the fourth one:
  nine succeed, one fails, and the error list names it.
\<close>

theorem failures_are_isolated_witness:
  "\<exists>evs.
     reindexEmbeddings
       (\<lambda>q. Inr (map (\<lambda>n. \<lparr> raw_name = n, raw_type = ''note'', raw_observations = None \<rparr>)
                  [''e0'', ''e1'', ''e2'', ''e3'', ''e4'', ''e5'', ''e6'', ''e7'', ''e8'', ''e9'']))
       \<lparr> generateEmbedding =
         (\<lambda>t. if t = ''Entity: e3'' @ [CHR 0x0A] @ ''Type: note''
              then Inl (new_Error ''provider down'') else Inr [1 / 2]),
       modelInfo = \<lparr> info_name = ''m'', info_dimensions = Dim 1, info_version = ''1'' \<rparr> \<rparr>
       (\<lambda>n e. None)
       \<lparr> batchSize = None, entityTypes = None, namePattern = None,
       onlyMissing = False, force = False, dryRun = False, limit = None, onProgress = False,
       batchDelay = None, customQuery = None, customQueryParams = None \<rparr>
     = Some (Inr (\<lparr> res_total = 10, res_processed = 10, res_succeeded = 9, res_failed = 1,
                     res_skipped = 0, res_errors = [(''e3'', ''provider down'')] \<rparr>, evs))"
proof -
  let ?db = "(\<lambda>q. Inr (map (\<lambda>n. \<lparr> raw_name = n, raw_type = ''note'', raw_observations = None \<rparr>)
                  [''e0'', ''e1'', ''e2'', ''e3'', ''e4'', ''e5'', ''e6'', ''e7'', ''e8'', ''e9'']))
       :: database"
  let ?svc = "\<lparr> generateEmbedding =
         (\<lambda>t. if t = ''Entity: e3'' @ [CHR 0x0A] @ ''Type: note''
              then Inl (new_Error ''provider down'') else Inr [1 / 2]),
       modelInfo = \<lparr> info_name = ''m'', info_dimensions = Dim 1, info_version = ''1'' \<rparr> \<rparr>"
  let ?o = "\<lparr> batchSize = None, entityTypes = None, namePattern = None,
       onlyMissing = False, force = False, dryRun = False, limit = None, onProgress = False,
       batchDelay = None, customQuery = None, customQueryParams = None \<rparr>"
  let ?ents = "map (\<lambda>n. \<lparr> ent_name = n, ent_type = ''note'', ent_observations = [] \<rparr>)
                 [''e0'', ''e1'', ''e2'', ''e3'', ''e4'', ''e5'', ''e6'', ''e7'', ''e8'', ''e9'']"
  have 1: "getEntitiesToReindex ?db ?o = Inr ?ents"
    by (simp add: getEntitiesToReindex_def toEntityBatch_def)
  have 2: "\<not> dryRun ?o" by simp
  have 3: "0 < num_or (batchSize ?o) 10" by (simp add: num_or_def)
  let ?store = "\<lambda>(n::string) (e::rat list). None :: thrown option"
  have total: "length ?ents = 10" by simp
  have ok: "length (filter (\<lambda>e. reindexFailure ?svc ?store e = None) ?ents) = 9"
    by (simp add: reindexFailure_def generateEmbeddingText_def)
  have bad: "length (filter (\<lambda>e. reindexFailure ?svc ?store e \<noteq> None) ?ents) = 1"
    by (simp add: reindexFailure_def generateEmbeddingText_def)
  have errs: "concat (map (failureEntry ?svc ?store) ?ents) = [(''e3'', ''provider down'')]"
    by (simp add: failureEntry_def reindexFailure_def generateEmbeddingText_def new_Error_def)
  from failures_are_isolated [OF 1 2 3, of ?svc ?store]
  obtain evs where
    "reindexEmbeddings ?db ?svc ?store ?o
       = Some (Inr (\<lparr> res_total = length ?ents,
                       res_processed = length ?ents,
                       res_succeeded =
                         length (filter (\<lambda>e. reindexFailure ?svc ?store e = None) ?ents),
                       res_failed =
                         length (filter (\<lambda>e. reindexFailure ?svc ?store e \<noteq> None) ?ents),
                       res_skipped = 0,
                       res_errors = concat (map (failureEntry ?svc ?store) ?ents) \<rparr>, evs))"
    by blast
  then show ?thesis
    unfolding total ok bad errs by blast
qed

text \<open>
  C2, as the claim states it, fails in one point: the recorded message is the message of
  whatever was thrown, so a provider that throws \<^verbatim>\<open>new Error('')\<close> leaves an entry with
  an empty message.
\<close>

theorem empty_message_counterexample:
  "map_option (map_sum id fst)
     (reindexEmbeddings
        (\<lambda>q. Inr (map (\<lambda>n. \<lparr> raw_name = n, raw_type = ''note'', raw_observations = None \<rparr>)
                  [''a'']))
        \<lparr> generateEmbedding = (\<lambda>t. Inl (new_Error [])),
       modelInfo = \<lparr> info_name = ''m'', info_dimensions = Dim 1, info_version = ''1'' \<rparr> \<rparr>
        (\<lambda>n e. None)
        \<lparr> batchSize = None, entityTypes = None, namePattern = None,
       onlyMissing = False, force = False, dryRun = False, limit = None, onProgress = False,
       batchDelay = None, customQuery = None, customQueryParams = None \<rparr>)
     = Some (Inr \<lparr> res_total = 1, res_processed = 1, res_succeeded = 0, res_failed = 1,
                    res_skipped = 0, res_errors = [(''a'', [])] \<rparr>)"
  by (simp add: reindexEmbeddings_def getEntitiesToReindex_def toEntityBatch_def num_or_def
        batchLoop_step batchLoop_done processBatch_def js_slice_def processEntity_def
        tryReindex_def emit_def recordFailure_def initialState_def resultOf_def Let_def
        new_Error_def)

text \<open>
  A positive configured delay is honoured. For a run that is not a dry run, with a
  positive batch size \<open>b\<close> and a configured delay \<open>d > 0\<close>: the log of the run is the logs
  of the batches of size \<open>b\<close>, in order, none of which holds a sleep, with exactly one
  sleep of \<open>d\<close> between two consecutive batches and none after the last.
\<close>

lemma positive_delay_sleeps_between_batches:
  assumes "getEntitiesToReindex db options = Inr entities"
    and "\<not> dryRun options"
    and "0 < num_or (batchSize options) 10"
    and "batchDelay options = Some d"
    and "0 < d"
  shows "\<exists>res traces.
     reindexEmbeddings db svc store options
       = Some (Inr (res, join [EvSleep d] traces))
     \<and> map generated traces
         = chunks (nat (num_or (batchSize options) 10)) (map generateEmbeddingText entities)
     \<and> list_all (\<lambda>t. \<not> list_ex is_sleep t) traces"
proof -
  have delay: "num_or (batchDelay options) 1000 = d"
    using assms(4,5) by (simp add: num_or_def)
  have pos: "0 < num_or (batchDelay options) 1000"
    using assms(5) delay by simp
  obtain st traces where
    run: "reindexEmbeddings db svc store options
            = Some (Inr (resultOf (length entities) st, st_events st))"
    and ev: "st_events st
         = join (if 0 < num_or (batchDelay options) 1000
                 then [EvSleep (num_or (batchDelay options) 1000)] else []) traces"
    and gen: "map generated traces
         = chunks (nat (num_or (batchSize options) 10)) (map generateEmbeddingText entities)"
    and ns: "\<forall>t \<in> set traces. \<not> list_ex is_sleep t"
    using reindexEmbeddings_run [OF assms(1,2,3), of svc store] by blast
  have "st_events st = join [EvSleep d] traces"
    using ev pos delay by simp
  moreover have "list_all (\<lambda>t. \<not> list_ex is_sleep t) traces"
    using ns by (simp add: list_all_iff)
  ultimately show ?thesis
    using run gen by metis
qed

text \<open>Three entities in batches of two with a delay of 250 ms: one sleep, between the batches.\<close>

lemma positive_delay_sleeps_between_batches_example:
  "\<exists>res traces.
     reindexEmbeddings
       (\<lambda>q. Inr (map (\<lambda>n. \<lparr> raw_name = n, raw_type = ''note'', raw_observations = None \<rparr>)
                  [''a'', ''b'', ''c'']))
       \<lparr> generateEmbedding = (\<lambda>t. Inr [1 / 2]),
       modelInfo = \<lparr> info_name = ''m'', info_dimensions = Dim 1, info_version = ''1'' \<rparr> \<rparr>
       (\<lambda>n e. None)
       \<lparr> batchSize = Some 2, entityTypes = None, namePattern = None,
       onlyMissing = False, force = False, dryRun = False, limit = None, onProgress = False,
       batchDelay = Some 250, customQuery = None, customQueryParams = None \<rparr>
     = Some (Inr (res, join [EvSleep 250] traces))
     \<and> map generated traces
         = [[''Entity: a'' @ [CHR 0x0A] @ ''Type: note'', ''Entity: b'' @ [CHR 0x0A] @ ''Type: note''],
            [''Entity: c'' @ [CHR 0x0A] @ ''Type: note'']]
     \<and> list_all (\<lambda>t. \<not> list_ex is_sleep t) traces"
proof -
  let ?db = "(\<lambda>q. Inr (map (\<lambda>n. \<lparr> raw_name = n, raw_type = ''note'', raw_observations = None \<rparr>)
                  [''a'', ''b'', ''c'']))
       :: database"
  let ?svc = "\<lparr> generateEmbedding = (\<lambda>t. Inr [1 / 2]),
       modelInfo = \<lparr> info_name = ''m'', info_dimensions = Dim 1, info_version = ''1'' \<rparr> \<rparr>"
  let ?o = "\<lparr> batchSize = Some 2, entityTypes = None, namePattern = None,
       onlyMissing = False, force = False, dryRun = False, limit = None, onProgress = False,
       batchDelay = Some 250, customQuery = None, customQueryParams = None \<rparr>"
  let ?ents = "map (\<lambda>n. \<lparr> ent_name = n, ent_type = ''note'', ent_observations = [] \<rparr>)
                 [''a'', ''b'', ''c'']"
  have 1: "getEntitiesToReindex ?db ?o = Inr ?ents"
    by (simp add: getEntitiesToReindex_def toEntityBatch_def)
  have 2: "\<not> dryRun ?o" by simp
  have 3: "0 < num_or (batchSize ?o) 10" by (simp add: num_or_def)
  have 4: "batchDelay ?o = Some 250" by simp
  have 5: "(0::int) < 250" by simp
  have ch: "chunks (nat (num_or (batchSize ?o) 10)) (map generateEmbeddingText ?ents)
     = [[''Entity: a'' @ [CHR 0x0A] @ ''Type: note'', ''Entity: b'' @ [CHR 0x0A] @ ''Type: note''],
        [''Entity: c'' @ [CHR 0x0A] @ ''Type: note'']]"
    by (simp add: num_or_def generateEmbeddingText_def chunks.simps)
  show ?thesis
    using positive_delay_sleeps_between_batches [OF 1 2 3 4 5, of ?svc "\<lambda>n e. None"]
    unfolding ch by simp
qed

text \<open>
  C6. The claim holds for \<open>d > 0\<close> and fails for \<open>d = 0\<close>, a delay \<^verbatim>\<open>validateOptions\<close>
  accepts and the guard \<^verbatim>\<open>batchDelay > 0\<close> of the loop provides for:
  \<^verbatim>\<open>options.batchDelay || 1000\<close> turns a configured delay of 0 into 1000, so with a
  batch size of 1 and a delay of 0 the two batches of a run over two entities are
  1000 ms apart.
\<close>

theorem zero_delay_sleeps_default:
  "map_option (map_sum id (filter is_sleep \<circ> snd))
     (reindexEmbeddings
        (\<lambda>q. Inr (map (\<lambda>n. \<lparr> raw_name = n, raw_type = ''note'', raw_observations = None \<rparr>)
                  [''a'', ''b'']))
        \<lparr> generateEmbedding = (\<lambda>t. Inr [1 / 2]),
       modelInfo = \<lparr> info_name = ''m'', info_dimensions = Dim 1, info_version = ''1'' \<rparr> \<rparr>
        (\<lambda>n e. None)
        \<lparr> batchSize = Some 1, entityTypes = None, namePattern = None,
       onlyMissing = False, force = False, dryRun = False, limit = None, onProgress = False,
       batchDelay = Some 0, customQuery = None, customQueryParams = None \<rparr>)
     = Some (Inr [EvSleep 1000])"
  by (simp add: reindexEmbeddings_def getEntitiesToReindex_def toEntityBatch_def num_or_def
        batchLoop_step batchLoop_done processBatch_def js_slice_def processEntity_def
        tryReindex_def emit_def recordFailure_def initialState_def resultOf_def Let_def)

end
